theory Spec2Isabelle
  imports Complex_Main "HOL-Library.Word"
begin

unbundle bit_operations_syntax

section \<open>Scene objects and socket lookup\<close>

text \<open>
  The viewer of \<^verbatim>\<open>src/lowpoly.js\<close> works on three.js objects. A placed object is
  modelled by what the generators read from it after \<^verbatim>\<open>updateMatrixWorld\<close>: its
  name, its world position, its world orientation and its children. A finite JavaScript
  number is modelled by the real number it denotes, and the arithmetic of the source on
  numbers by the rounded operations of the section on double-precision arithmetic;
  orientations are kept abstract (type \<open>'q\<close>).
\<close>

type_synonym vec3 = "real \<times> real \<times> real"

datatype 'q obj = Obj (name: string) (worldPos: vec3) (worldQuat: 'q) (children: "'q obj list")

text \<open>
  \<^verbatim>\<open>Object3D.traverse(callback)\<close> calls the callback on the object itself and then
  traverses each child in order: the visiting order is the pre-order listing.
\<close>

fun traverse :: "'q obj \<Rightarrow> 'q obj list" where
  "traverse (Obj n p q cs) = Obj n p q cs # concat (map traverse cs)"

text \<open>\<^verbatim>\<open>String.prototype.toLowerCase\<close> on ASCII names, and \<^verbatim>\<open>includes\<close>.\<close>

definition toLowerCase_char :: "char \<Rightarrow> char" where
  "toLowerCase_char c =
     (let n = (of_char c :: nat) in if 65 \<le> n \<and> n \<le> 90 then char_of (n + 32) else c)"

definition toLowerCase :: "string \<Rightarrow> string" where
  "toLowerCase s = map toLowerCase_char s"

fun startsWith :: "string \<Rightarrow> string \<Rightarrow> bool" where
  "startsWith s [] = True"
| "startsWith [] (d # p) = False"
| "startsWith (c # s) (d # p) = (c = d \<and> startsWith s p)"

fun str_includes :: "string \<Rightarrow> string \<Rightarrow> bool" where
  "str_includes [] p = (p = [])"
| "str_includes (c # s) p = (startsWith (c # s) p \<or> str_includes s p)"

text \<open>
  The callbacks of the lookups assign \<^verbatim>\<open>socket = child\<close> at every visited node that
  matches; \<open>assignMatches\<close> is that loop over the visiting order, started from the
  current value of the variable.
\<close>

definition assignMatches :: "('a \<Rightarrow> bool) \<Rightarrow> 'a option \<Rightarrow> 'a list \<Rightarrow> 'a option" where
  "assignMatches P socket xs = foldl (\<lambda>sock child. if P child then Some child else sock) socket xs"

definition isSocketOutName :: "'q obj \<Rightarrow> bool" where
  "isSocketOutName child =
     (let nm = toLowerCase (name child)
      in str_includes nm ''socket_out'' \<or> (str_includes nm ''socket'' \<and> \<not> str_includes nm ''socket_in''))"

definition findSocketOut :: "'q obj \<Rightarrow> 'q obj option" where
  "findSocketOut model = assignMatches isSocketOutName None (traverse model)"

text \<open>The helper \<^verbatim>\<open>findSocket\<close> of the spine-and-branch generator: exact name first,
  partial match as the fallback.\<close>

definition findSocket :: "'q obj \<Rightarrow> string \<Rightarrow> 'q obj option" where
  "findSocket model socketName =
     (case assignMatches (\<lambda>child. toLowerCase (name child) = toLowerCase socketName)
             None (traverse model) of
        Some socket \<Rightarrow> Some socket
      | None \<Rightarrow>
          assignMatches (\<lambda>child. str_includes (toLowerCase (name child)) (toLowerCase socketName))
            None (traverse model))"

text \<open>
  The lookup as the specification words it: the first sub-object, in traversal order,
  whose name contains the pattern case-insensitively.
\<close>

definition spec_findSocket :: "'q obj \<Rightarrow> string \<Rightarrow> 'q obj option" where
  "spec_findSocket piece pat =
     find (\<lambda>child. str_includes (toLowerCase (name child)) (toLowerCase pat))
       (concat (map traverse (children piece)))"

section \<open>Double-precision arithmetic\<close>

text \<open>
  JavaScript numbers are IEEE 754 double-precision values. The result of an arithmetic
  operation is the exact result rounded to the nearest double, ties to the even
  significand: \<open>fl\<close> is that rounding, with a significand of 53 bits and the subnormal
  range below \<open>2^-1022\<close>. Infinities and NaN are not numbers of the model: an operation
  whose exact result has a magnitude of \<open>2^1024\<close> or more is outside it.
  \<open>bitLen n\<close> is the number of binary digits of \<open>n\<close>, \<open>floorLog2 x\<close> the exponent \<open>k\<close>
  with \<open>2^k \<le> x < 2^(k+1)\<close> for a positive \<open>x\<close>.
\<close>

function bitLen :: "int \<Rightarrow> int" where
  "bitLen n = (if n \<le> 0 then 0 else 1 + bitLen (n div 2))"
  by pat_completeness auto
termination
  by (relation "measure nat") auto

declare bitLen.simps [simp del]

definition floorLog2 :: "real \<Rightarrow> int" where
  "floorLog2 x = (if 1 \<le> x then bitLen \<lfloor>x\<rfloor> - 1 else - bitLen (\<lceil>1 / x\<rceil> - 1))"

definition pow2 :: "int \<Rightarrow> real" where
  "pow2 e = (if 0 \<le> e then 2 ^ nat e else 1 / 2 ^ nat (- e))"

definition roundHalfEven :: "real \<Rightarrow> int" where
  "roundHalfEven x =
     (let f = \<lfloor>x\<rfloor>; d = x - of_int f
      in if d < 1 / 2 then f else if 1 / 2 < d then f + 1 else if even f then f else f + 1)"

definition fl :: "real \<Rightarrow> real" where
  "fl x =
     (if x = 0 then 0
      else let e = max (floorLog2 \<bar>x\<bar> - 52) (- 1074)
           in of_int (roundHalfEven (x / pow2 e)) * pow2 e)"

definition fadd :: "real \<Rightarrow> real \<Rightarrow> real" where
  "fadd a b = fl (a + b)"

definition fsub :: "real \<Rightarrow> real \<Rightarrow> real" where
  "fsub a b = fl (a - b)"

definition fmul :: "real \<Rightarrow> real \<Rightarrow> real" where
  "fmul a b = fl (a * b)"

definition fdiv :: "real \<Rightarrow> real \<Rightarrow> real" where
  "fdiv a b = fl (a / b)"

text \<open>\<^verbatim>\<open>Math.sqrt\<close>: the square root, rounded.\<close>

definition Math_sqrt :: "real \<Rightarrow> real" where
  "Math_sqrt x = fl (sqrt x)"

section \<open>Numbers and grid keys\<close>

text \<open>
  \<^verbatim>\<open>Math.round\<close> rounds to the nearest integer with ties towards plus infinity;
  it, \<^verbatim>\<open>Math.ceil\<close> and \<^verbatim>\<open>Math.floor\<close> are exact on doubles. \<open>distanceTo\<close> is
  three.js's \<^verbatim>\<open>Vector3.distanceTo\<close>: the rounded square root of
  \<^verbatim>\<open>dx * dx + dy * dy + dz * dz\<close>, each operation rounded.
  The keys \<^verbatim>\<open>`${gx},${gz}`\<close> of the occupied-cell set and of the world grid are
  modelled by the pair of integers they print.
\<close>

definition Math_round :: "real \<Rightarrow> int" where
  "Math_round x = \<lfloor>x + 1 / 2\<rfloor>"

definition Math_ceil :: "real \<Rightarrow> int" where
  "Math_ceil x = \<lceil>x\<rceil>"

definition Math_floor :: "real \<Rightarrow> int" where
  "Math_floor x = \<lfloor>x\<rfloor>"

definition GRID_CELL_SIZE :: real where
  "GRID_CELL_SIZE = 2"

definition TILE_SIZE :: real where
  "TILE_SIZE = 10"

type_synonym cell = "int \<times> int"

definition vx :: "vec3 \<Rightarrow> real" where
  "vx v = fst v"

definition vy :: "vec3 \<Rightarrow> real" where
  "vy v = fst (snd v)"

definition vz :: "vec3 \<Rightarrow> real" where
  "vz v = snd (snd v)"

definition distanceToSquared :: "vec3 \<Rightarrow> vec3 \<Rightarrow> real" where
  "distanceToSquared a b =
     (let dx = fsub (vx a) (vx b);
          dy = fsub (vy a) (vy b);
          dz = fsub (vz a) (vz b)
      in fadd (fadd (fmul dx dx) (fmul dy dy)) (fmul dz dz))"

definition distanceTo :: "vec3 \<Rightarrow> vec3 \<Rightarrow> real" where
  "distanceTo a b = Math_sqrt (distanceToSquared a b)"

definition cellKey :: "real \<Rightarrow> real \<Rightarrow> cell" where
  "cellKey x z = (Math_round (fdiv x GRID_CELL_SIZE), Math_round (fdiv z GRID_CELL_SIZE))"

definition getGridKey :: "real \<Rightarrow> real \<Rightarrow> cell" where
  "getGridKey worldX worldZ =
     (Math_round (fdiv worldX TILE_SIZE), Math_round (fdiv worldZ TILE_SIZE))"

section \<open>The viewer's state\<close>

text \<open>
  A ground tile is a mesh; \<open>tid\<close> is the identity of the mesh object (three.js numbers
  every object it constructs), which is what \<^verbatim>\<open>indexOf\<close> compares. The fields of the
  viewer are those the road generators, the ground filler and the pole decorator read
  and write; the render scene is not modelled.
\<close>

record tile =
  tid :: nat
  position :: vec3

datatype entryType = grass | road

record entry =
  entry_type :: entryType
  mesh :: tile

datatype poleItem = Pole real real | Cable "vec3 list"

record 'q viewer =
  roadTemplates :: "string \<rightharpoonup> 'q obj"
  roadPieces :: "'q obj list"
  occupiedCells :: "cell set"
  groundTiles :: "tile list"
  worldGrid :: "cell \<rightharpoonup> entry"
  utilityPoles :: "poleItem list"
  nextId :: nat

section \<open>Ground tiles\<close>

fun spliceMesh :: "tile \<Rightarrow> tile list \<Rightarrow> tile list" where
  "spliceMesh m [] = []"
| "spliceMesh m (t # ts) = (if tid t = tid m then ts else t # spliceMesh m ts)"

definition removeTileAt :: "int \<Rightarrow> int \<Rightarrow> 'q viewer \<Rightarrow> bool \<times> 'q viewer" where
  "removeTileAt gridX gridZ s =
     (case worldGrid s (gridX, gridZ) of
        Some e \<Rightarrow>
          (True, s\<lparr>worldGrid := (worldGrid s)((gridX, gridZ) := None),
                   groundTiles := spliceMesh (mesh e) (groundTiles s)\<rparr>)
      | None \<Rightarrow> (False, s))"

text \<open>
  A tile is placed at \<^verbatim>\<open>(gridX * TILE_SIZE, -0.01, gridZ * TILE_SIZE)\<close>. The product
  of a grid index and the tile size is an integer, which a double holds exactly below
  \<open>2^53\<close>: it is written without rounding. The literal is the double nearest to 0.01.
\<close>

definition spawnGrassTile :: "int \<Rightarrow> int \<Rightarrow> 'q viewer \<Rightarrow> tile option \<times> 'q viewer" where
  "spawnGrassTile gridX gridZ s =
     (if worldGrid s (gridX, gridZ) \<noteq> None then (None, s)
      else
        let t = \<lparr>tid = nextId s,
                 position = (real_of_int gridX * TILE_SIZE, - fl (1 / 100), real_of_int gridZ * TILE_SIZE)\<rparr>
        in (Some t,
            s\<lparr>groundTiles := groundTiles s @ [t],
              worldGrid := (worldGrid s)((gridX, gridZ) \<mapsto> \<lparr>entry_type = grass, mesh = t\<rparr>),
              nextId := Suc (nextId s)\<rparr>))"

definition generateGroundGrid :: "int \<Rightarrow> 'q viewer \<Rightarrow> 'q viewer" where
  "generateGroundGrid gridSize s =
     (let s0 = s\<lparr>groundTiles := [], worldGrid := Map.empty\<rparr>;
          halfGrid = Math_floor (real_of_int gridSize / 2)
      in fold (\<lambda>x st. fold (\<lambda>z st'. snd (spawnGrassTile x z st')) [- halfGrid..halfGrid - 1] st)
           [- halfGrid..halfGrid - 1] s0)"

section \<open>Centerline sampling and placement with collision checking\<close>

text \<open>
  The interpolation \<^verbatim>\<open>a + (b - a) * t\<close> of the samplers, each operation rounded. The
  samplers stand for the source on centerlines of length at most \<open>2^31\<close>, where the loop
  counter is exact and the array of samples can be built.
\<close>

definition lerp1 :: "real \<Rightarrow> real \<Rightarrow> real \<Rightarrow> real" where
  "lerp1 a b t = fadd a (fmul (fsub b a) t)"

definition sampleRoadCells :: "'q obj \<Rightarrow> cell list" where
  "sampleRoadCells piece =
     (case findSocketOut piece of
        None \<Rightarrow> []
      | Some socket \<Rightarrow>
          let start = worldPos piece;
              endp = worldPos socket;
              distance = distanceTo start endp;
              steps = max 1 (Math_ceil distance)
          in map (\<lambda>i. let t = fdiv (real_of_int i) (real_of_int steps)
                       in cellKey (lerp1 (vx start) (vx endp) t) (lerp1 (vz start) (vz endp) t))
               [0..steps])"

definition checkCollision :: "cell list \<Rightarrow> cell set \<Rightarrow> 'q viewer \<Rightarrow> bool" where
  "checkCollision cells recentCells s =
     list_ex (\<lambda>c. c \<in> occupiedCells s \<and> c \<notin> recentCells) cells"

definition sampleRoadWorldGridCells :: "'q obj \<Rightarrow> cell list" where
  "sampleRoadWorldGridCells piece =
     (case findSocketOut piece of
        None \<Rightarrow> []
      | Some socket \<Rightarrow>
          let start = worldPos piece;
              endp = worldPos socket;
              distance = distanceTo start endp;
              steps = max 1 (Math_ceil (fdiv distance 2))
          in fold (\<lambda>i cells.
                     let t = fdiv (real_of_int i) (real_of_int steps);
                         g = getGridKey (lerp1 (vx start) (vx endp) t) (lerp1 (vz start) (vz endp) t)
                     in if g \<in> set cells then cells else cells @ [g])
               [0..steps] [])"

text \<open>
  The seam-tolerance window of \<^verbatim>\<open>trySpawnRoadPiece\<close>: the cells of the last
  \<^verbatim>\<open>Math.min(2, roadPieces.length)\<close> committed pieces.
\<close>

definition recentCellsOf :: "'q viewer \<Rightarrow> cell set" where
  "recentCellsOf s =
     (let recentCount = min 2 (length (roadPieces s))
      in \<Union> (set (map (\<lambda>p. set (sampleRoadCells p))
                      (drop (length (roadPieces s) - recentCount) (roadPieces s)))))"

text \<open>
  After a commit the piece is raised by \<^verbatim>\<open>position.y += 0.001\<close>, a rounded addition
  of the double nearest to 0.001; the scene is its parent and carries no transform, and
  every node of the piece is taken to move up with it.
\<close>

fun liftY :: "real \<Rightarrow> 'q obj \<Rightarrow> 'q obj" where
  "liftY d (Obj n p q cs) = Obj n (vx p, fadd (vy p) d, vz p) q (map (liftY d) cs)"

definition removeGrassUnder :: "cell list \<Rightarrow> 'q viewer \<Rightarrow> 'q viewer" where
  "removeGrassUnder worldCells s =
     fold (\<lambda>(gridX, gridZ) st.
             case worldGrid st (gridX, gridZ) of
               Some e \<Rightarrow> if entry_type e = grass then snd (removeTileAt gridX gridZ st) else st
             | None \<Rightarrow> st)
       worldCells s"

text \<open>
  \<open>place template position quaternion\<close> stands for three.js: the deep clone of the
  template, scaled by 2, with the given position and orientation, after
  \<^verbatim>\<open>updateMatrixWorld(true)\<close>.
\<close>

definition trySpawnRoadPiece ::
  "('q obj \<Rightarrow> vec3 \<Rightarrow> 'q \<Rightarrow> 'q obj) \<Rightarrow> string \<Rightarrow> vec3 \<Rightarrow> 'q \<Rightarrow> 'q viewer
     \<Rightarrow> 'q obj option \<times> 'q viewer" where
  "trySpawnRoadPiece place pieceName pos quaternion s =
     (case roadTemplates s pieceName of
        None \<Rightarrow> (None, s)
      | Some template \<Rightarrow>
          let testInstance = place template pos quaternion;
              cells = sampleRoadCells testInstance;
              recentCells = recentCellsOf s;
              hasRoadCollision = list_ex (\<lambda>c. c \<in> occupiedCells s \<and> c \<notin> recentCells) cells
          in if hasRoadCollision then (None, s)
             else
               let s1 = removeGrassUnder (sampleRoadWorldGridCells testInstance) s;
                   committed = liftY (fl (1 / 1000)) testInstance
               in (Some committed,
                   s1\<lparr>occupiedCells := occupiedCells s1 \<union> set cells,
                      roadPieces := roadPieces s1 @ [committed]\<rparr>))"

definition getSocketTransform :: "'q obj \<Rightarrow> (vec3 \<times> 'q) option" where
  "getSocketTransform piece =
     (case findSocketOut piece of
        None \<Rightarrow> None
      | Some socket \<Rightarrow> Some (worldPos socket, worldQuat socket))"

text \<open>
  \<^verbatim>\<open>Math.random()\<close> returns a number in \<open>[0, 1)\<close>. The environment's stream of
  draws is a function \<open>rnd\<close> from the index of the call; the fractional part keeps
  every stream inside the range. The index \<^verbatim>\<open>Math.floor(Math.random() * (i + 1))\<close>
  of the shuffle is taken of the exact product, which keeps it below \<open>i + 1\<close> for every
  stream; the results below hold for every order a shuffle returns, and the example
  stream of zeros has exact products.
\<close>

definition Math_random :: "(nat \<Rightarrow> real) \<Rightarrow> nat \<Rightarrow> real" where
  "Math_random rnd k = frac (rnd k)"

text \<open>The Fisher-Yates loop, from index \<open>i\<close> down to 1; \<open>k\<close> counts the draws made.\<close>

fun shuffleFrom :: "(nat \<Rightarrow> real) \<Rightarrow> nat \<Rightarrow> nat \<Rightarrow> 'a list \<Rightarrow> 'a list \<times> nat" where
  "shuffleFrom rnd 0 k array = (array, k)"
| "shuffleFrom rnd (Suc i) k array =
     (let j = nat (Math_floor (Math_random rnd k * real (Suc i + 1)))
      in shuffleFrom rnd i (Suc k) (array[Suc i := array ! j, j := array ! Suc i]))"

definition shuffleArray :: "(nat \<Rightarrow> real) \<Rightarrow> nat \<Rightarrow> 'a list \<Rightarrow> 'a list \<times> nat" where
  "shuffleArray rnd k array = shuffleFrom rnd (length array - 1) k array"

fun tryPieces ::
  "('q obj \<Rightarrow> vec3 \<Rightarrow> 'q \<Rightarrow> 'q obj) \<Rightarrow> string list \<Rightarrow> vec3 \<Rightarrow> 'q \<Rightarrow> 'q viewer
     \<Rightarrow> 'q obj option \<times> 'q viewer" where
  "tryPieces place [] pos quat s = (None, s)"
| "tryPieces place (pieceName # rest) pos quat s =
     (case trySpawnRoadPiece place pieceName pos quat s of
        (Some piece, s') \<Rightarrow> (Some piece, s')
      | (None, s') \<Rightarrow> tryPieces place rest pos quat s')"

definition maxFailures :: nat where
  "maxFailures = 5"

text \<open>
  The spawn loop of \<^verbatim>\<open>generateRoad\<close>; the first numeric argument is the number of
  iterations left (\<^verbatim>\<open>count - i\<close>), \<open>k\<close> the number of random draws made so far.
\<close>

fun generateRoad_loop ::
  "('q obj \<Rightarrow> vec3 \<Rightarrow> 'q \<Rightarrow> 'q obj) \<Rightarrow> (nat \<Rightarrow> real) \<Rightarrow> nat \<Rightarrow> nat \<Rightarrow> nat \<Rightarrow> vec3 \<Rightarrow> 'q
     \<Rightarrow> 'q viewer \<Rightarrow> 'q viewer" where
  "generateRoad_loop place rnd 0 k consecutiveFailures currentPos currentQuat s = s"
| "generateRoad_loop place rnd (Suc n) k consecutiveFailures currentPos currentQuat s =
     (if consecutiveFailures < maxFailures then
        let pieceOptions =
              (if consecutiveFailures > 0 then [''road_long'', ''road_short'']
               else [''road_long'', ''road_short'', ''road_curve_wide'', ''road_curve_tight'']);
            (order, k') = shuffleArray rnd k pieceOptions;
            (piece, s') = tryPieces place order currentPos currentQuat s
        in case piece of
             None \<Rightarrow> generateRoad_loop place rnd n k' (consecutiveFailures + 1) currentPos currentQuat s'
           | Some p \<Rightarrow>
               (case getSocketTransform p of
                  Some (position', quaternion') \<Rightarrow>
                    generateRoad_loop place rnd n k' 0 position' quaternion' s'
                | None \<Rightarrow> generateRoad_loop place rnd n k' 0 currentPos currentQuat s')
      else s)"

definition generateRoad ::
  "('q obj \<Rightarrow> vec3 \<Rightarrow> 'q \<Rightarrow> 'q obj) \<Rightarrow> 'q \<Rightarrow> (nat \<Rightarrow> real) \<Rightarrow> nat \<Rightarrow> 'q viewer \<Rightarrow> 'q viewer" where
  "generateRoad place identityQuat rnd count s =
     generateRoad_loop place rnd count 0 0 (0, 0, 0) identityQuat
       (s\<lparr>roadPieces := [], occupiedCells := {}\<rparr>)"

text \<open>\<^verbatim>\<open>occupyCells\<close> of the frontier generator marks the cell of every sample.\<close>

definition occupyCells :: "(real \<times> real) list \<Rightarrow> 'q viewer \<Rightarrow> 'q viewer" where
  "occupyCells samples s =
     fold (\<lambda>(x, z) st. st\<lparr>occupiedCells := insert (cellKey x z) (occupiedCells st)\<rparr>) samples s"

section \<open>The random-walk generator: candidates and direction rules\<close>

datatype roadKey = road_long | road_short | road_curve_wide | road_curve_tight

datatype roadKind = straight | curve

fun ROAD_TYPES :: "roadKey \<Rightarrow> roadKind" where
  "ROAD_TYPES road_long = straight"
| "ROAD_TYPES road_short = straight"
| "ROAD_TYPES road_curve_wide = curve"
| "ROAD_TYPES road_curve_tight = curve"

definition ROAD_TYPE_keys :: "roadKey list" where
  "ROAD_TYPE_keys = [road_long, road_short, road_curve_wide, road_curve_tight]"

definition MAX_SAME_DIR_CURVES :: nat where
  "MAX_SAME_DIR_CURVES = 2"

definition MIN_STRAIGHTS_AFTER_CURVE :: nat where
  "MIN_STRAIGHTS_AFTER_CURVE = 1"

record tracking =
  lastCurveDir :: int
  sameDirCount :: nat
  straightsSinceCurve :: nat

definition initialTracking :: tracking where
  "initialTracking = \<lparr>lastCurveDir = 0, sameDirCount = 0, straightsSinceCurve = 99\<rparr>"

definition curveDir :: "bool \<Rightarrow> int" where
  "curveDir mirror = (if mirror then - 1 else 1)"

definition passesRules :: "tracking \<Rightarrow> roadKey \<times> bool \<Rightarrow> bool" where
  "passesRules tr cand =
     (case cand of (key, mirror) \<Rightarrow>
        if ROAD_TYPES key \<noteq> curve then True
        else if straightsSinceCurve tr < MIN_STRAIGHTS_AFTER_CURVE then False
        else if curveDir mirror = lastCurveDir tr \<and> sameDirCount tr \<ge> MAX_SAME_DIR_CURVES then False
        else True)"

definition filterByRules :: "tracking \<Rightarrow> (roadKey \<times> bool) list \<Rightarrow> (roadKey \<times> bool) list" where
  "filterByRules tr candidates = filter (passesRules tr) candidates"

definition buildCandidates :: "nat \<Rightarrow> (roadKey \<times> bool) list" where
  "buildCandidates i =
     (if i < 3 then map (\<lambda>key. (key, False)) (filter (\<lambda>key. ROAD_TYPES key = straight) ROAD_TYPE_keys)
      else concat (map (\<lambda>key. (key, False) # (if ROAD_TYPES key = curve then [(key, True)] else []))
                     ROAD_TYPE_keys))"

text \<open>The trial order of one step: build, filter by the direction rules, shuffle.\<close>

definition trialOrder ::
  "(nat \<Rightarrow> real) \<Rightarrow> nat \<Rightarrow> nat \<Rightarrow> tracking \<Rightarrow> (roadKey \<times> bool) list \<times> nat" where
  "trialOrder rnd k i tr =
     (let candidates = filterByRules tr (buildCandidates i)
      in shuffleFrom rnd (length candidates - 1) k candidates)"

definition updateTracking :: "roadKey \<Rightarrow> bool \<Rightarrow> tracking \<Rightarrow> tracking" where
  "updateTracking key mirror tr =
     (if ROAD_TYPES key = curve then
        tr\<lparr>sameDirCount := (if curveDir mirror = lastCurveDir tr then sameDirCount tr + 1 else 1),
           lastCurveDir := curveDir mirror,
           straightsSinceCurve := 0\<rparr>
      else tr\<lparr>straightsSinceCurve := straightsSinceCurve tr + 1\<rparr>)"

definition sampleCenterline :: "'q obj \<Rightarrow> (real \<times> real) list" where
  "sampleCenterline piece =
     (let origin = worldPos piece
      in case findSocketOut piece of
           None \<Rightarrow> [(vx origin, vz origin)]
         | Some socket \<Rightarrow>
             let socketWorld = worldPos socket;
                 len = distanceTo socketWorld origin;
                 steps = max (Math_ceil (fdiv len 1)) 1
             in map (\<lambda>i. let t = fdiv (real_of_int i) (real_of_int steps)
                          in (lerp1 (vx origin) (vx socketWorld) t, lerp1 (vz origin) (vz socketWorld) t))
                  [0..steps])"

definition checkCollision1 :: "(real \<times> real) list \<Rightarrow> cell set \<Rightarrow> 'q viewer \<Rightarrow> bool" where
  "checkCollision1 samples recentCells s =
     list_ex (\<lambda>(x, z). cellKey x z \<in> occupiedCells s \<and> cellKey x z \<notin> recentCells) samples"

text \<open>
  \<open>place1 template mirror target\<close> stands for three.js in this generator: the deep
  clone of the template with scale \<open>(2, 2, 2)\<close>, its x scale negated when \<open>mirror\<close>
  holds, moved to the target position and orientation when there is one (the clone keeps
  the template's own when the previous piece has no out socket), after
  \<^verbatim>\<open>updateMatrixWorld(true)\<close>.
\<close>

definition snapTarget :: "'q \<Rightarrow> 'q viewer \<Rightarrow> (vec3 \<times> 'q) option" where
  "snapTarget identityQuat s =
     (if roadPieces s = [] then Some ((0, 0, 5), identityQuat)
      else case findSocketOut (last (roadPieces s)) of
             Some prevSocket \<Rightarrow> Some (worldPos prevSocket, worldQuat prevSocket)
           | None \<Rightarrow> None)"

fun tryCandidates ::
  "('q obj \<Rightarrow> bool \<Rightarrow> (vec3 \<times> 'q) option \<Rightarrow> 'q obj) \<Rightarrow> 'q \<Rightarrow> (roadKey \<rightharpoonup> 'q obj) \<Rightarrow> cell set
     \<Rightarrow> (roadKey \<times> bool) list \<Rightarrow> 'q viewer
     \<Rightarrow> ((roadKey \<times> bool) \<times> cell set) option \<times> 'q viewer" where
  "tryCandidates place1 identityQuat templates recentCells [] s = (None, s)"
| "tryCandidates place1 identityQuat templates recentCells ((key, mirror) # rest) s =
     (case templates key of
        None \<Rightarrow> tryCandidates place1 identityQuat templates recentCells rest s
      | Some template \<Rightarrow>
          let piece = place1 template mirror (snapTarget identityQuat s);
              samples = sampleCenterline piece
          in if checkCollision1 samples recentCells s
             then tryCandidates place1 identityQuat templates recentCells rest s
             else
               let newCells = set (map (\<lambda>(x, z). cellKey x z) samples)
               in (Some ((key, mirror), newCells),
                   s\<lparr>occupiedCells := occupiedCells s \<union> newCells,
                     roadPieces := roadPieces s @ [piece]\<rparr>))"

text \<open>
  The spawn loop of \<^verbatim>\<open>spawnProceduralRoadSystem1\<close>: \<open>n\<close> iterations are left,
  \<open>i\<close> is the loop index, \<open>k\<close> the number of random draws made so far.
\<close>

fun system1_loop ::
  "('q obj \<Rightarrow> bool \<Rightarrow> (vec3 \<times> 'q) option \<Rightarrow> 'q obj) \<Rightarrow> 'q \<Rightarrow> (roadKey \<rightharpoonup> 'q obj)
     \<Rightarrow> (nat \<Rightarrow> real) \<Rightarrow> nat \<Rightarrow> nat \<Rightarrow> nat \<Rightarrow> tracking \<Rightarrow> cell set list \<Rightarrow> 'q viewer
     \<Rightarrow> tracking \<times> 'q viewer" where
  "system1_loop place1 identityQuat templates rnd 0 i k tr recentCellSets s = (tr, s)"
| "system1_loop place1 identityQuat templates rnd (Suc n) i k tr recentCellSets s =
     (let recentCells = \<Union> (set recentCellSets);
          (candidates, k') = trialOrder rnd k i tr
      in case tryCandidates place1 identityQuat templates recentCells candidates s of
           (None, s') \<Rightarrow> (tr, s')
         | (Some ((key, mirror), newCells), s') \<Rightarrow>
             let pushed = recentCellSets @ [newCells];
                 recentCellSets' = (if length pushed > 3 then tl pushed else pushed)
             in system1_loop place1 identityQuat templates rnd n (i + 1) k'
                  (updateTracking key mirror tr) recentCellSets' s')"

definition spawnProceduralRoadSystem1 ::
  "('q obj \<Rightarrow> bool \<Rightarrow> (vec3 \<times> 'q) option \<Rightarrow> 'q obj) \<Rightarrow> 'q \<Rightarrow> (roadKey \<rightharpoonup> 'q obj)
     \<Rightarrow> (nat \<Rightarrow> real) \<Rightarrow> nat \<Rightarrow> 'q viewer \<Rightarrow> tracking \<times> 'q viewer" where
  "spawnProceduralRoadSystem1 place1 identityQuat templates rnd count s =
     system1_loop place1 identityQuat templates rnd count 0 0 initialTracking []
       (s\<lparr>roadPieces := [], occupiedCells := {}\<rparr>)"

section \<open>The spine-and-branch generator\<close>

text \<open>
  The seeded generator works on 32-bit integers: \<^verbatim>\<open>| 0\<close> and \<^verbatim>\<open>Math.imul\<close> wrap,
  \<^verbatim>\<open>>>>\<close> is the logical shift. \<open>seededRandom\<close> returns the draw and the new
  \<^verbatim>\<open>seedState\<close>. A draw is \<open>u / 2^32\<close> for a 32-bit \<open>u\<close>, which a double holds exactly;
  it is below the double \<^verbatim>\<open>0.2\<close> exactly when \<open>u \<le> 858993459\<close>, as it is below the real
  \<open>2 / 10\<close>, so the chance is the real number here.
\<close>

definition SEED :: "32 word" where
  "SEED = 12345"

definition SPINE_LENGTH :: nat where
  "SPINE_LENGTH = 20"

definition ROADX_CHANCE :: real where
  "ROADX_CHANCE = 2 / 10"

definition seededRandom :: "32 word \<Rightarrow> real \<times> 32 word" where
  "seededRandom seedState =
     (let seedState' = seedState + 0x6D2B79F5;
          t = (seedState' XOR drop_bit 15 seedState') * (1 OR seedState');
          t' = (t + (t XOR drop_bit 7 t) * (61 OR t)) XOR t
      in (real (unat (t' XOR drop_bit 14 t')) / 4294967296, seedState'))"

record 'q branch =
  pos :: vec3
  quat :: 'q
  side :: string
  lengthB :: nat

text \<open>
  \<open>place template targetPos targetQuat\<close> stands for three.js in \<^verbatim>\<open>spawnPiece\<close>: the
  deep clone of the template with its origin snapped to the target, after
  \<^verbatim>\<open>updateMatrixWorld(true)\<close>. \<open>templates\<close> holds the templates that loaded.
\<close>

definition spawnPiece ::
  "('q obj \<Rightarrow> vec3 \<Rightarrow> 'q \<Rightarrow> 'q obj) \<Rightarrow> (string \<rightharpoonup> 'q obj) \<Rightarrow> string \<Rightarrow> vec3 \<Rightarrow> 'q
     \<Rightarrow> 'q viewer \<Rightarrow> 'q obj option \<times> 'q viewer" where
  "spawnPiece place templates pieceType targetPos targetQuat s =
     (case templates pieceType of
        None \<Rightarrow> (None, s)
      | Some template \<Rightarrow>
          let piece = place template targetPos targetQuat
          in (Some piece, s\<lparr>roadPieces := roadPieces s @ [piece]\<rparr>))"

definition getSocketTransform3 :: "'q obj \<Rightarrow> string \<Rightarrow> (vec3 \<times> 'q) option" where
  "getSocketTransform3 piece socketName =
     (case findSocket piece socketName of
        None \<Rightarrow> None
      | Some socket \<Rightarrow> Some (worldPos socket, worldQuat socket))"

definition queueBranches :: "'q obj \<Rightarrow> 'q branch list \<Rightarrow> 'q branch list" where
  "queueBranches piece branches =
     (let leftTransform = getSocketTransform3 piece ''socket_left'';
          rightTransform = getSocketTransform3 piece ''socket_right'';
          branches1 = (case leftTransform of
                         Some (p, q) \<Rightarrow> branches @ [\<lparr>pos = p, quat = q, side = ''left'', lengthB = 5\<rparr>]
                       | None \<Rightarrow> branches)
      in case rightTransform of
           Some (p, q) \<Rightarrow> branches1 @ [\<lparr>pos = p, quat = q, side = ''right'', lengthB = 5\<rparr>]
         | None \<Rightarrow> branches1)"

text \<open>The main spine loop, for a seed state and a spine length; \<open>i\<close> is the loop index.\<close>

function spineLoop ::
  "('q obj \<Rightarrow> vec3 \<Rightarrow> 'q \<Rightarrow> 'q obj) \<Rightarrow> (string \<rightharpoonup> 'q obj) \<Rightarrow> nat \<Rightarrow> nat \<Rightarrow> 32 word \<Rightarrow> vec3 \<Rightarrow> 'q
     \<Rightarrow> 'q branch list \<Rightarrow> 'q viewer \<Rightarrow> 'q viewer \<times> 'q branch list" where
  "spineLoop place templates spineLength i seedState currentPos currentQuat branches s =
     (if i < spineLength then
        let (useRoadX, seedState') =
              (if 0 < i \<and> int i < int spineLength - 1
               then (case seededRandom seedState of (r, st) \<Rightarrow> (r < ROADX_CHANCE, st))
               else (False, seedState));
            pieceType = (if useRoadX then ''RoadX'' else ''Road1'')
        in case spawnPiece place templates pieceType currentPos currentQuat s of
             (None, s') \<Rightarrow> (s', branches)
           | (Some piece, s') \<Rightarrow>
               let branches' = (if useRoadX then queueBranches piece branches else branches)
               in (case getSocketTransform3 piece ''socket_out'' of
                     Some (nextPos, nextQuat) \<Rightarrow>
                       spineLoop place templates spineLength (i + 1) seedState' nextPos nextQuat
                         branches' s'
                   | None \<Rightarrow> (s', branches'))
      else (s, branches))"
  by pat_completeness auto
termination
  by (relation "measure (\<lambda>(place, templates, spineLength, i, rest). spineLength - i)") auto

declare spineLoop.simps [simp del]

fun branchLoop ::
  "('q obj \<Rightarrow> vec3 \<Rightarrow> 'q \<Rightarrow> 'q obj) \<Rightarrow> (string \<rightharpoonup> 'q obj) \<Rightarrow> nat \<Rightarrow> vec3 \<Rightarrow> 'q \<Rightarrow> 'q viewer
     \<Rightarrow> 'q viewer" where
  "branchLoop place templates 0 branchPos branchQuat s = s"
| "branchLoop place templates (Suc n) branchPos branchQuat s =
     (case spawnPiece place templates ''Road1'' branchPos branchQuat s of
        (None, s') \<Rightarrow> s'
      | (Some piece, s') \<Rightarrow>
          (case getSocketTransform3 piece ''socket_out'' of
             Some (nextPos, nextQuat) \<Rightarrow> branchLoop place templates n nextPos nextQuat s'
           | None \<Rightarrow> s'))"

definition system3 ::
  "32 word \<Rightarrow> nat \<Rightarrow> ('q obj \<Rightarrow> vec3 \<Rightarrow> 'q \<Rightarrow> 'q obj) \<Rightarrow> 'q \<Rightarrow> (string \<rightharpoonup> 'q obj) \<Rightarrow> 'q viewer
     \<Rightarrow> 'q viewer \<times> 'q branch list" where
  "system3 seed spineLength place identityQuat templates s =
     (let (s1, branches) =
            spineLoop place templates spineLength 0 seed (0, 0, 0) identityQuat []
              (s\<lparr>roadPieces := []\<rparr>)
      in (fold (\<lambda>b st. branchLoop place templates (lengthB b) (pos b) (quat b) st) branches s1,
          branches))"

definition spawnSpineAndBranchSystem3 ::
  "('q obj \<Rightarrow> vec3 \<Rightarrow> 'q \<Rightarrow> 'q obj) \<Rightarrow> 'q \<Rightarrow> (string \<rightharpoonup> 'q obj) \<Rightarrow> 'q viewer
     \<Rightarrow> 'q viewer \<times> 'q branch list" where
  "spawnSpineAndBranchSystem3 = system3 SEED SPINE_LENGTH"

section \<open>Utility poles and sagging cables\<close>















section \<open>Names used in the statements\<close>

text \<open>The state the constructor leaves: nothing placed, nothing occupied.\<close>

definition emptyViewer :: "unit viewer" where
  "emptyViewer =
     \<lparr>roadTemplates = Map.empty, roadPieces = [], occupiedCells = {}, groundTiles = [],
      worldGrid = Map.empty, utilityPoles = [], nextId = 0\<rparr>"

text \<open>The position \<^verbatim>\<open>spawnGrassTile\<close> gives the tile of a coarse cell, and the index
  range of the two loops of \<^verbatim>\<open>generateGroundGrid\<close>.\<close>

definition tilePos :: "cell \<Rightarrow> vec3" where
  "tilePos c = (real_of_int (fst c) * TILE_SIZE, - fl (1 / 100), real_of_int (snd c) * TILE_SIZE)"

definition gridRange :: "int \<Rightarrow> int list" where
  "gridRange gridSize = [- (gridSize div 2)..gridSize div 2 - 1]"

text \<open>
  Example templates for the worked inputs: a straight piece of length 10 and an
  intersection piece, all sockets with the orientation of the piece. For such templates
  snapping a clone to a target is a translation, which \<open>examplePlace\<close> computes.
\<close>

definition exampleRoad1 :: "unit obj" where
  "exampleRoad1 =
     Obj ''Road1a'' (0, 0, 0) () [Obj ''Road1_mesh'' (0, 0, 0) () [], Obj ''socket_out'' (0, 0, 10) () []]"

definition exampleRoadX :: "unit obj" where
  "exampleRoadX =
     Obj ''RoadXa'' (0, 0, 0) ()
       [Obj ''RoadX_mesh'' (0, 0, 0) () [], Obj ''socket_out'' (0, 0, 10) () [],
        Obj ''socket_left'' (5, 0, 5) () [], Obj ''socket_right'' (- 5, 0, 5) () []]"

definition exampleTemplates :: "string \<rightharpoonup> unit obj" where
  "exampleTemplates = [''Road1'' \<mapsto> exampleRoad1, ''RoadX'' \<mapsto> exampleRoadX]"

fun translateBy :: "vec3 \<Rightarrow> 'q obj \<Rightarrow> 'q obj" where
  "translateBy d (Obj n p q cs) =
     Obj n (vx p + vx d, vy p + vy d, vz p + vz d) q (map (translateBy d) cs)"

definition examplePlace :: "unit obj \<Rightarrow> vec3 \<Rightarrow> unit \<Rightarrow> unit obj" where
  "examplePlace template target q = translateBy target template"

text \<open>
  The coarse cell of a committed piece (that of its origin), whether the world grid holds
  a ground tile at a cell, and the exclusivity property as the specification words it.
\<close>

definition pieceCell :: "'q obj \<Rightarrow> cell" where
  "pieceCell piece = getGridKey (vx (worldPos piece)) (vz (worldPos piece))"

definition groundTileAt :: "'q viewer \<Rightarrow> cell \<Rightarrow> bool" where
  "groundTileAt s c = (case worldGrid s c of Some e \<Rightarrow> entry_type e = grass | None \<Rightarrow> False)"

definition spec_tileRoadExclusive :: "'q viewer \<Rightarrow> bool" where
  "spec_tileRoadExclusive s = list_all (\<lambda>piece. \<not> groundTileAt s (pieceCell piece)) (roadPieces s)"

text \<open>
  Worked inputs for the placement engine: \<open>examplePlace2\<close> is the placement for the
  templates above at scale 2; \<open>exampleRoadShort\<close> is a straight template whose placed
  centerline has length 5; \<open>examplePiece y z\<close> is that template placed at \<open>(0, y, z)\<close>;
  \<open>exampleRoadState\<close> is the viewer after \<^verbatim>\<open>generateRoad(3)\<close> with that template alone
  (\<open>exampleY n\<close> is the height after \<open>n\<close> commits, each 0.001 above the one before).
\<close>

fun scaleBy :: "real \<Rightarrow> 'q obj \<Rightarrow> 'q obj" where
  "scaleBy c (Obj n p q cs) = Obj n (c * vx p, c * vy p, c * vz p) q (map (scaleBy c) cs)"

definition examplePlace2 :: "unit obj \<Rightarrow> vec3 \<Rightarrow> unit \<Rightarrow> unit obj" where
  "examplePlace2 template target q = translateBy target (scaleBy 2 template)"

definition exampleRoadShort :: "unit obj" where
  "exampleRoadShort = Obj ''road_short'' (0, 0, 0) () [Obj ''socket_out'' (0, 0, 5 / 2) () []]"

definition examplePiece :: "real \<Rightarrow> real \<Rightarrow> unit obj" where
  "examplePiece y z = Obj ''road_short'' (0, y, z) () [Obj ''socket_out'' (0, y, z + 5) () []]"

definition exampleStart :: "unit viewer" where
  "exampleStart = emptyViewer\<lparr>roadTemplates := [''road_short'' \<mapsto> exampleRoadShort]\<rparr>"

fun exampleY :: "nat \<Rightarrow> real" where
  "exampleY 0 = 0"
| "exampleY (Suc n) = fadd (exampleY n) (fl (1 / 1000))"

definition exampleRoadState :: "unit viewer" where
  "exampleRoadState =
     exampleStart
       \<lparr>roadPieces :=
          [examplePiece (exampleY 1) 0, examplePiece (exampleY 2) 5, examplePiece (exampleY 3) 10],
        occupiedCells := {(0, 0), (0, 1), (0, 2), (0, 3), (0, 4), (0, 5), (0, 6), (0, 7), (0, 8)}\<rparr>"

text \<open>
  A placed straight piece of length 5 at the origin, a piece whose out socket lies at its
  origin, a straight piece of length 22, a piece whose out socket is \<open>2^-30\<close> off the
  axis, a piece without a socket, and the sample count as the specification words it.
\<close>

definition exampleStraight5 :: "unit obj" where
  "exampleStraight5 = Obj ''road_short'' (0, 0, 0) () [Obj ''socket_out'' (0, 0, 5) () []]"

definition exampleZeroLength :: "unit obj" where
  "exampleZeroLength = Obj ''road_short'' (0, 0, 0) () [Obj ''socket_out'' (0, 0, 0) () []]"

definition exampleStraight22 :: "unit obj" where
  "exampleStraight22 = Obj ''road_long'' (0, 0, 0) () [Obj ''socket_out'' (0, 0, 22) () []]"

definition exampleOffAxis :: "unit obj" where
  "exampleOffAxis = Obj ''road_short'' (0, 0, 0) () [Obj ''socket_out'' (1 / 2 ^ 30, 0, 5) () []]"







section \<open>Results: double-precision arithmetic\<close>

text \<open>
  The rounding evaluates on numerals by unfolding: 0.1 is the double
  \<open>3602879701896397 / 2^55\<close>, 0.001 the double \<open>1152921504606847 / 2^60\<close>, 7.6 the
  double \<open>4278419646001971 / 2^49\<close>.
\<close>

lemmas fl_eval = fl_def floorLog2_def pow2_def roundHalfEven_def bitLen.simps Let_def
  fadd_def fsub_def fmul_def fdiv_def

lemma fl_zero: "fl 0 = 0"
  by (simp add: fl_def)

lemma fl_values:
  "fl 5 = 5"
  "fl (1 / 10) = 3602879701896397 / 36028797018963968"
  "fl (1 / 1000) = 1152921504606847 / 1152921504606846976"
  "fl (76 / 10) = 4278419646001971 / 562949953421312"
  by (simp_all add: fl_eval)

lemma sqrt_squares: "sqrt 25 = 5" "sqrt 484 = 22"
  using real_sqrt_abs [of 5] real_sqrt_abs [of 22] by simp_all

section \<open>Results: socket lookup\<close>

lemma assignMatches_last:
  "assignMatches P a xs = (case find P (rev xs) of Some c \<Rightarrow> Some c | None \<Rightarrow> a)"
  by (induction xs rule: rev_induct) (simp_all add: assignMatches_def)

lemma lowers:
  "toLowerCase ''Road1a'' = ''road1a''"
  "toLowerCase ''Road1_mesh'' = ''road1_mesh''"
  "toLowerCase ''RoadXa'' = ''roadxa''"
  "toLowerCase ''RoadX_mesh'' = ''roadx_mesh''"
  "toLowerCase ''socket_out'' = ''socket_out''"
  "toLowerCase ''socket_left'' = ''socket_left''"
  "toLowerCase ''socket_right'' = ''socket_right''"
  by code_simp+

lemma lowers2:
  "toLowerCase ''road_short'' = ''road_short''"
  "toLowerCase ''road_long'' = ''road_long''"
  "toLowerCase ''socket'' = ''socket''"
  "toLowerCase ''SOCKET_OUT'' = ''socket_out''"
  by code_simp+

lemma findSocketOut_single:
  assumes "\<not> isSocketOutName (Obj n p q [Obj m p' q' []])" and "isSocketOutName (Obj m p' q' [])"
  shows "findSocketOut (Obj n p q [Obj m p' q' []]) = Some (Obj m p' q' [])"
  using assms by (simp add: findSocketOut_def assignMatches_def)

lemma isSocketOutName_names:
  "isSocketOutName (Obj ''socket_out'' p q cs)"
  "\<not> isSocketOutName (Obj ''road_short'' p q cs)"
  "\<not> isSocketOutName (Obj ''road_long'' p q cs)"
  by (simp_all add: isSocketOutName_def lowers lowers2)

lemma findSocketOut_examples:
  "findSocketOut exampleStraight5 = Some (Obj ''socket_out'' (0, 0, 5) () [])"
  "findSocketOut exampleZeroLength = Some (Obj ''socket_out'' (0, 0, 0) () [])"
  by (simp_all add: exampleStraight5_def exampleZeroLength_def findSocketOut_single isSocketOutName_names)

lemma exampleRoadX_lookups:
  "find (\<lambda>child. toLowerCase (name child) = toLowerCase ''socket'') (rev (traverse exampleRoadX)) = None"
  "find (\<lambda>child. str_includes (toLowerCase (name child)) (toLowerCase ''socket''))
     (rev (traverse exampleRoadX)) = Some (Obj ''socket_right'' (- 5, 0, 5) () [])"
  "find (\<lambda>child. toLowerCase (name child) = toLowerCase ''SOCKET_OUT'') (rev (traverse exampleRoadX))
     = Some (Obj ''socket_out'' (0, 0, 10) () [])"
  "find isSocketOutName (rev (traverse exampleRoadX)) = Some (Obj ''socket_right'' (- 5, 0, 5) () [])"
  "spec_findSocket exampleRoadX ''socket'' = Some (Obj ''socket_out'' (0, 0, 10) () [])"
  by (simp_all add: exampleRoadX_def lowers lowers2 isSocketOutName_def spec_findSocket_def)

text \<open>
  C2, as the specification states it, fails: on the example intersection piece the lookup
  of the pattern \<open>socket\<close> returns the last matching node of the traversal, not the
  first.
\<close>

theorem socket_lookup_first_match_counterexample:
  "findSocket exampleRoadX ''socket'' \<noteq> spec_findSocket exampleRoadX ''socket''"
proof -
  have "findSocket exampleRoadX ''socket'' = Some (Obj ''socket_right'' (- 5, 0, 5) () [])"
    by (simp add: findSocket_def assignMatches_last exampleRoadX_lookups)
  then show ?thesis
    by (simp add: exampleRoadX_lookups)
qed

text \<open>
  C2, amended. \<^verbatim>\<open>findSocketOut\<close> returns the last node of the pre-order traversal
  (the piece itself included) whose lower-cased name contains \<open>socket_out\<close>, or contains
  \<open>socket\<close> and not \<open>socket_in\<close>. \<^verbatim>\<open>findSocket\<close> returns the last node whose
  lower-cased name equals the lower-cased pattern; when there is none, the last node whose
  lower-cased name contains it; none when no node matches.
\<close>

theorem socket_lookup_last_match:
  "findSocketOut model = find isSocketOutName (rev (traverse model))
   \<and> findSocket model pat =
     (case find (\<lambda>child. toLowerCase (name child) = toLowerCase pat) (rev (traverse model)) of
        Some socket \<Rightarrow> Some socket
      | None \<Rightarrow> find (\<lambda>child. str_includes (toLowerCase (name child)) (toLowerCase pat))
                 (rev (traverse model)))"
  by (simp add: findSocketOut_def findSocket_def assignMatches_last split: option.splits)

theorem socket_lookup_last_match_witness:
  "findSocket exampleRoadX ''socket'' = Some (Obj ''socket_right'' (- 5, 0, 5) () [])
   \<and> findSocket exampleRoadX ''SOCKET_OUT'' = Some (Obj ''socket_out'' (0, 0, 10) () [])
   \<and> findSocketOut exampleRoadX = Some (Obj ''socket_right'' (- 5, 0, 5) () [])"
  using socket_lookup_last_match [of exampleRoadX "''socket''"]
    socket_lookup_last_match [of exampleRoadX "''SOCKET_OUT''"]
  by (simp only: exampleRoadX_lookups option.simps)

section \<open>Results: ground filling\<close>

lemma fold_nested_product:
  "fold (\<lambda>x. fold (g x) zs) xs s = fold (\<lambda>(x, z). g x z) (List.product xs zs) s"
  by (induction xs arbitrary: s) (simp_all add: fold_map comp_def)

lemma spawnGrassTile_fresh:
  assumes "worldGrid s (x, z) = None"
  shows "groundTiles (snd (spawnGrassTile x z s))
           = groundTiles s @ [\<lparr>tid = nextId s, position = tilePos (x, z)\<rparr>]"
    and "worldGrid (snd (spawnGrassTile x z s)) =
           (worldGrid s)((x, z) \<mapsto>
              \<lparr>entry_type = grass, mesh = \<lparr>tid = nextId s, position = tilePos (x, z)\<rparr>\<rparr>)"
    and "roadPieces (snd (spawnGrassTile x z s)) = roadPieces s"
    and "occupiedCells (snd (spawnGrassTile x z s)) = occupiedCells s"
  using assms by (simp_all add: spawnGrassTile_def tilePos_def Let_def)

text \<open>Filling a list of distinct free cells: one tile per cell, in order.\<close>

lemma fill_cells:
  assumes "distinct cs" and "set cs \<inter> dom (worldGrid s) = {}"
  shows "map position (groundTiles (fold (\<lambda>(x, z) st. snd (spawnGrassTile x z st)) cs s))
           = map position (groundTiles s) @ map tilePos cs
       \<and> dom (worldGrid (fold (\<lambda>(x, z) st. snd (spawnGrassTile x z st)) cs s))
           = dom (worldGrid s) \<union> set cs
       \<and> (\<forall>c \<in> set cs. \<exists>t. worldGrid (fold (\<lambda>(x, z) st. snd (spawnGrassTile x z st)) cs s) c
                 = Some \<lparr>entry_type = grass, mesh = t\<rparr> \<and> position t = tilePos c
                 \<and> t \<in> set (groundTiles (fold (\<lambda>(x, z) st. snd (spawnGrassTile x z st)) cs s)))
       \<and> (\<forall>c. c \<notin> set cs \<longrightarrow>
             worldGrid (fold (\<lambda>(x, z) st. snd (spawnGrassTile x z st)) cs s) c = worldGrid s c)
       \<and> set (groundTiles s)
           \<subseteq> set (groundTiles (fold (\<lambda>(x, z) st. snd (spawnGrassTile x z st)) cs s))
       \<and> roadPieces (fold (\<lambda>(x, z) st. snd (spawnGrassTile x z st)) cs s) = roadPieces s
       \<and> occupiedCells (fold (\<lambda>(x, z) st. snd (spawnGrassTile x z st)) cs s) = occupiedCells s"
  using assms
proof (induction cs arbitrary: s)
  case Nil
  then show ?case by simp
next
  case (Cons c cs)
  obtain x z where c: "c = (x, z)" by (cases c)
  let ?s1 = "snd (spawnGrassTile x z s)"
  from Cons.prems have free: "worldGrid s (x, z) = None"
    by (auto simp: c)
  note step = spawnGrassTile_fresh [OF free]
  have d: "distinct cs" and nin: "c \<notin> set cs" using Cons.prems by auto
  have disj: "set cs \<inter> dom (worldGrid ?s1) = {}"
    using Cons.prems nin by (auto simp: step c)
  note IH = Cons.IH [OF d disj]
  have f: "fold (\<lambda>(x, z) st. snd (spawnGrassTile x z st)) (c # cs) s
             = fold (\<lambda>(x, z) st. snd (spawnGrassTile x z st)) cs ?s1"
    by (simp add: c)
  show ?case
    unfolding f using IH nin
    by (auto simp: step c)
qed

lemma halfGrid_div: "Math_floor (real_of_int N / 2) = N div 2"
  by (simp add: Math_floor_def floor_divide_of_int_eq [of N 2, simplified])

lemma generateGroundGrid_fold:
  "generateGroundGrid N s =
     fold (\<lambda>(x, z) st. snd (spawnGrassTile x z st)) (List.product (gridRange N) (gridRange N))
       (s\<lparr>groundTiles := [], worldGrid := Map.empty\<rparr>)"
  by (simp add: generateGroundGrid_def Let_def halfGrid_div fold_nested_product gridRange_def)

lemma filled_grid:
  "map position (groundTiles (generateGroundGrid N s))
     = map tilePos (List.product (gridRange N) (gridRange N))
   \<and> dom (worldGrid (generateGroundGrid N s)) = set (List.product (gridRange N) (gridRange N))
   \<and> (\<forall>c \<in> set (List.product (gridRange N) (gridRange N)).
         \<exists>t. worldGrid (generateGroundGrid N s) c = Some \<lparr>entry_type = grass, mesh = t\<rparr>
               \<and> position t = tilePos c \<and> t \<in> set (groundTiles (generateGroundGrid N s)))
   \<and> roadPieces (generateGroundGrid N s) = roadPieces s
   \<and> occupiedCells (generateGroundGrid N s) = occupiedCells s"
proof -
  let ?cs = "List.product (gridRange N) (gridRange N)"
  let ?s0 = "s\<lparr>groundTiles := [], worldGrid := Map.empty\<rparr>"
  have d: "distinct ?cs"
    by (simp add: distinct_product gridRange_def)
  have e: "set ?cs \<inter> dom (worldGrid ?s0) = {}"
    by simp
  from fill_cells [OF d e] show ?thesis
    unfolding generateGroundGrid_fold by simp
qed

lemma length_gridRange: "0 \<le> N \<Longrightarrow> length (gridRange N) = nat (2 * (N div 2))"
  by (simp add: gridRange_def)

lemma inj_tilePos: "inj tilePos"
  by (auto simp: inj_def tilePos_def TILE_SIZE_def prod_eq_iff)

text \<open>
  C10. For every grid size \<open>N \<ge> 1\<close> and any state before the call,
  \<^verbatim>\<open>generateGroundGrid(N)\<close> leaves exactly \<open>(2 * floor (N / 2))\<^sup>2\<close> ground tiles, one at
  each coarse coordinate pair of \<open>[-floor (N / 2), floor (N / 2) - 1]\<^sup>2\<close>, at pairwise
  different positions; for an odd \<open>N\<close> that is \<open>(N - 1)\<^sup>2\<close> tiles.
\<close>

theorem ground_grid_square:
  assumes "1 \<le> N"
  shows "map position (groundTiles (generateGroundGrid N s))
           = map tilePos (List.product (gridRange N) (gridRange N))
       \<and> distinct (map position (groundTiles (generateGroundGrid N s)))
       \<and> length (groundTiles (generateGroundGrid N s)) = nat ((2 * (N div 2))\<^sup>2)
       \<and> set (List.product (gridRange N) (gridRange N))
           = {- (N div 2)..N div 2 - 1} \<times> {- (N div 2)..N div 2 - 1}
       \<and> (odd N \<longrightarrow> length (groundTiles (generateGroundGrid N s)) = nat ((N - 1)\<^sup>2))"
proof -
  let ?cs = "List.product (gridRange N) (gridRange N)"
  have p: "map position (groundTiles (generateGroundGrid N s)) = map tilePos ?cs"
    using filled_grid [of N s] by blast
  have d: "distinct (map tilePos ?cs)"
    by (simp add: distinct_map distinct_product gridRange_def inj_on_subset [OF inj_tilePos])
  have "length (groundTiles (generateGroundGrid N s)) = length (map tilePos ?cs)"
    using p by (metis length_map)
  also have "\<dots> = nat (2 * (N div 2)) * nat (2 * (N div 2))"
    using assms by (simp add: length_gridRange)
  also have "\<dots> = nat ((2 * (N div 2))\<^sup>2)"
    using assms by (simp add: power2_eq_square nat_mult_distrib)
  finally have l: "length (groundTiles (generateGroundGrid N s)) = nat ((2 * (N div 2))\<^sup>2)" .
  have o: "odd N \<longrightarrow> length (groundTiles (generateGroundGrid N s)) = nat ((N - 1)\<^sup>2)"
  proof
    assume "odd N"
    then have "2 * (N div 2) = N - 1" by presburger
    with l show "length (groundTiles (generateGroundGrid N s)) = nat ((N - 1)\<^sup>2)"
      by (simp only:)
  qed
  have st: "set ?cs = {- (N div 2)..N div 2 - 1} \<times> {- (N div 2)..N div 2 - 1}"
    by (simp add: gridRange_def)
  show ?thesis using p d l o st by (simp only: simp_thms)
qed

text \<open>The 4 by 4 fill of the empty viewer: 16 tiles at the coarse cells \<open>(-2..1, -2..1)\<close>.\<close>

theorem ground_grid_square_witness:
  "(1::int) \<le> 4
   \<and> map position (groundTiles (generateGroundGrid 4 emptyViewer))
     = [(-20, - fl (1 / 100), -20), (-20, - fl (1 / 100), -10), (-20, - fl (1 / 100), 0), (-20, - fl (1 / 100), 10),
        (-10, - fl (1 / 100), -20), (-10, - fl (1 / 100), -10), (-10, - fl (1 / 100), 0), (-10, - fl (1 / 100), 10),
        (0, - fl (1 / 100), -20), (0, - fl (1 / 100), -10), (0, - fl (1 / 100), 0), (0, - fl (1 / 100), 10),
        (10, - fl (1 / 100), -20), (10, - fl (1 / 100), -10), (10, - fl (1 / 100), 0), (10, - fl (1 / 100), 10)]
   \<and> length (groundTiles (generateGroundGrid 4 emptyViewer)) = 16"
  using ground_grid_square [of 4 emptyViewer]
  by (simp add: gridRange_def tilePos_def TILE_SIZE_def upto_rec1)

text \<open>
  C7. Calling \<^verbatim>\<open>generateGroundGrid\<close> twice in a row with the same size leaves the same
  tile positions, in the same order, and the same number of tiles as calling it once,
  without duplicates, and the same set of world-grid keys.
\<close>

theorem ground_fill_idempotent:
  "map position (groundTiles (generateGroundGrid N (generateGroundGrid N s)))
     = map position (groundTiles (generateGroundGrid N s))
   \<and> length (groundTiles (generateGroundGrid N (generateGroundGrid N s)))
     = length (groundTiles (generateGroundGrid N s))
   \<and> distinct (map position (groundTiles (generateGroundGrid N (generateGroundGrid N s))))
   \<and> dom (worldGrid (generateGroundGrid N (generateGroundGrid N s)))
     = dom (worldGrid (generateGroundGrid N s))"
proof -
  let ?cs = "List.product (gridRange N) (gridRange N)"
  have p: "\<And>t. map position (groundTiles (generateGroundGrid N t)) = map tilePos ?cs"
    using filled_grid by blast
  have w: "\<And>t. dom (worldGrid (generateGroundGrid N t)) = set ?cs"
    using filled_grid by blast
  have d: "distinct (map tilePos ?cs)"
    by (simp add: distinct_map distinct_product gridRange_def inj_on_subset [OF inj_tilePos])
  have l: "\<And>t. length (groundTiles (generateGroundGrid N t)) = length ?cs"
    using p by (metis length_map)
  show ?thesis
    by (simp only: p w l d simp_thms)
qed

theorem ground_fill_idempotent_witness:
  "map position (groundTiles (generateGroundGrid 4 (generateGroundGrid 4 emptyViewer)))
     = map position (groundTiles (generateGroundGrid 4 emptyViewer))
   \<and> length (groundTiles (generateGroundGrid 4 (generateGroundGrid 4 emptyViewer)))
     = length (groundTiles (generateGroundGrid 4 emptyViewer))
   \<and> distinct (map position (groundTiles (generateGroundGrid 4 (generateGroundGrid 4 emptyViewer))))
   \<and> dom (worldGrid (generateGroundGrid 4 (generateGroundGrid 4 emptyViewer)))
     = dom (worldGrid (generateGroundGrid 4 emptyViewer))"
  by (rule ground_fill_idempotent)

section \<open>Results: centerline sampling\<close>

lemma distance_examples:
  "distanceTo (0, 0, 0) (0, 0, 5) = 5"
  "distanceTo (0, 0, 0) (0, 0, 0) = 0"
  "distanceTo (0, 0, 0) (0, 0, 22) = 22"
  by (simp_all add: distanceTo_def distanceToSquared_def Math_sqrt_def vx_def vy_def vz_def
      fl_eval sqrt_squares)

lemma distance_offAxis: "distanceTo (0, 0, 0) (1 / 2 ^ 30, 0, 5) = 5"
  by (simp add: distanceTo_def distanceToSquared_def Math_sqrt_def vx_def vy_def vz_def
      fl_eval sqrt_squares)

lemma sampleRoadCells_Some:
  assumes "findSocketOut piece = Some socket"
  shows "sampleRoadCells piece =
     map (\<lambda>i. cellKey
                 (lerp1 (vx (worldPos piece)) (vx (worldPos socket))
                    (fdiv (real_of_int i)
                       (real_of_int (max 1 (Math_ceil (distanceTo (worldPos piece) (worldPos socket)))))))
                 (lerp1 (vz (worldPos piece)) (vz (worldPos socket))
                    (fdiv (real_of_int i)
                       (real_of_int (max 1 (Math_ceil (distanceTo (worldPos piece) (worldPos socket))))))))
       [0..max 1 (Math_ceil (distanceTo (worldPos piece) (worldPos socket)))]"
  using assms by (simp add: sampleRoadCells_def Let_def)



lemma findSocketOut_more_examples:
  "findSocketOut exampleStraight22 = Some (Obj ''socket_out'' (0, 0, 22) () [])"
  "findSocketOut exampleOffAxis = Some (Obj ''socket_out'' (1 / 2 ^ 30, 0, 5) () [])"
  by (simp_all add: exampleStraight22_def exampleOffAxis_def
      findSocketOut_single isSocketOutName_names)


lemma example5_cells:
  "sampleRoadCells exampleStraight5 = [(0, 0), (0, 1), (0, 1), (0, 2), (0, 2), (0, 3)]"
  unfolding sampleRoadCells_Some [OF findSocketOut_examples(1)]
  apply (simp add: exampleStraight5_def distance_examples Math_ceil_def vx_def vz_def)
  apply (simp add: upto_rec1)
  apply (simp add: cellKey_def lerp1_def Math_round_def GRID_CELL_SIZE_def fl_eval)
  done

lemma example22_cells:
  "sampleRoadCells exampleStraight22 =
     [(0, 0), (0, 1), (0, 1), (0, 2), (0, 2), (0, 3), (0, 3), (0, 4), (0, 4), (0, 5), (0, 5), (0, 6),
      (0, 6), (0, 7), (0, 7), (0, 7), (0, 8), (0, 9), (0, 9), (0, 10), (0, 10), (0, 11), (0, 11)]"
  unfolding sampleRoadCells_Some [OF findSocketOut_more_examples(1)]
  apply (simp add: exampleStraight22_def distance_examples Math_ceil_def vx_def vz_def)
  apply (simp add: upto_rec1)
  apply (simp add: cellKey_def lerp1_def Math_round_def GRID_CELL_SIZE_def fl_eval)
  done

lemma exampleOffAxis_distance:
  "distanceTo (worldPos exampleOffAxis) (worldPos (Obj ''socket_out'' (1 / 2 ^ 30, 0, 5) () [])) = 5"
  by (simp add: exampleOffAxis_def distanceTo_def distanceToSquared_def Math_sqrt_def vx_def vy_def vz_def
      fl_eval sqrt_squares)

lemma exampleOffAxis_cells:
  "sampleRoadCells exampleOffAxis = [(0, 0), (0, 1), (0, 1), (0, 2), (0, 2), (0, 3)]"
  unfolding sampleRoadCells_Some [OF findSocketOut_more_examples(2)] exampleOffAxis_distance
  apply (simp add: exampleOffAxis_def Math_ceil_def vx_def vz_def)
  apply (simp add: upto_rec1)
  apply (simp add: cellKey_def lerp1_def Math_round_def GRID_CELL_SIZE_def fl_eval)
  done

lemma examplePlace2_origin: "examplePlace2 exampleRoadShort (0, 0, 0) () = exampleStraight5"
  by (simp add: examplePlace2_def exampleRoadShort_def exampleStraight5_def vx_def vy_def vz_def)





section \<open>Results: placement with collision checking\<close>

lemma removeTileAt_occupied: "occupiedCells (snd (removeTileAt x z s)) = occupiedCells s"
  and removeTileAt_pieces: "roadPieces (snd (removeTileAt x z s)) = roadPieces s"
  by (simp_all add: removeTileAt_def split: option.splits)

lemma removeGrassUnder_keeps:
  "occupiedCells (removeGrassUnder cs s) = occupiedCells s \<and> roadPieces (removeGrassUnder cs s) = roadPieces s"
  unfolding removeGrassUnder_def
  by (induction cs arbitrary: s)
     (auto simp: removeTileAt_occupied removeTileAt_pieces split: option.splits if_splits)

lemma trySpawnRoadPiece_grows:
  "occupiedCells s \<subseteq> occupiedCells (snd (trySpawnRoadPiece place pieceName p q s))"
  by (auto simp: trySpawnRoadPiece_def Let_def removeGrassUnder_keeps split: option.splits)

lemma tryPieces_grows:
  "occupiedCells s \<subseteq> occupiedCells (snd (tryPieces place names p q s))"
proof (induction names arbitrary: s)
  case Nil
  show ?case by simp
next
  case (Cons a names)
  obtain r s' where t: "trySpawnRoadPiece place a p q s = (r, s')" by (metis surj_pair)
  have g: "occupiedCells s \<subseteq> occupiedCells s'"
    using trySpawnRoadPiece_grows [of s place a p q] t by simp
  show ?case
  proof (cases r)
    case None
    with t g Cons.IH [of s'] show ?thesis by auto
  next
    case (Some piece)
    with t g show ?thesis by simp
  qed
qed

lemma generateRoad_loop_grows:
  "occupiedCells s \<subseteq> occupiedCells (generateRoad_loop place rnd n k cf p q s)"
proof (induction n arbitrary: k cf p q s)
  case 0
  show ?case by simp
next
  case (Suc n)
  show ?case
  proof (cases "cf < maxFailures")
    case False
    then show ?thesis by simp
  next
    case True
    let ?opts = "if cf > 0 then [''road_long'', ''road_short'']
                 else [''road_long'', ''road_short'', ''road_curve_wide'', ''road_curve_tight'']"
    obtain order k' where sh: "shuffleArray rnd k ?opts = (order, k')" by (metis surj_pair)
    obtain r s' where t: "tryPieces place order p q s = (r, s')" by (metis surj_pair)
    have g: "occupiedCells s \<subseteq> occupiedCells s'"
      using tryPieces_grows [of s place order p q] t by simp
    show ?thesis
    proof (cases r)
      case None
      have "occupiedCells s' \<subseteq> occupiedCells (generateRoad_loop place rnd n k' (cf + 1) p q s')"
        by (rule Suc.IH)
      with g True sh t None show ?thesis by (auto simp: Let_def)
    next
      case (Some piece)
      show ?thesis
      proof (cases "getSocketTransform piece")
        case None
        have "occupiedCells s' \<subseteq> occupiedCells (generateRoad_loop place rnd n k' 0 p q s')"
          by (rule Suc.IH)
        with g True sh t Some None show ?thesis by (auto simp: Let_def)
      next
        case (Some a)
        obtain p' q' where a: "a = (p', q')" by (cases a)
        have "occupiedCells s' \<subseteq> occupiedCells (generateRoad_loop place rnd n k' 0 p' q' s')"
          by (rule Suc.IH)
        with g True sh t \<open>r = Some piece\<close> Some a show ?thesis by (auto simp: Let_def)
      qed
    qed
  qed
qed

lemma occupyCells_grows: "occupiedCells s \<subseteq> occupiedCells (occupyCells samples s)"
  unfolding occupyCells_def
proof (induction samples arbitrary: s)
  case Nil
  show ?case by simp
next
  case (Cons a samples)
  obtain x z where a: "a = (x, z)" by (cases a)
  have "occupiedCells (s\<lparr>occupiedCells := insert (cellKey x z) (occupiedCells s)\<rparr>)
          \<subseteq> occupiedCells (fold (\<lambda>(x, z) st. st\<lparr>occupiedCells := insert (cellKey x z) (occupiedCells st)\<rparr>)
                 samples (s\<lparr>occupiedCells := insert (cellKey x z) (occupiedCells s)\<rparr>))"
    by (rule Cons.IH)
  then show ?case by (auto simp: a)
qed

lemma tryCandidates_grows:
  "occupiedCells s \<subseteq> occupiedCells (snd (tryCandidates place1 iq templates recent cands s))"
proof (induction cands)
  case Nil
  show ?case by simp
next
  case (Cons c cands)
  obtain key mirror where c: "c = (key, mirror)" by (cases c)
  show ?case
  proof (cases "templates key")
    case None
    with Cons c show ?thesis by simp
  next
    case (Some template)
    show ?thesis
    proof (cases "checkCollision1 (sampleCenterline (place1 template mirror (snapTarget iq s))) recent s")
      case True
      with Cons c Some show ?thesis by (simp add: Let_def)
    next
      case False
      with c Some show ?thesis by (simp add: Let_def)
    qed
  qed
qed

lemma system1_loop_grows:
  "occupiedCells s
     \<subseteq> occupiedCells (snd (system1_loop place1 iq templates rnd n i k tr recentCellSets s))"
proof (induction n arbitrary: i k tr recentCellSets s)
  case 0
  show ?case by simp
next
  case (Suc n)
  obtain cands k' where t: "trialOrder rnd k i tr = (cands, k')" by (metis surj_pair)
  obtain r s' where c: "tryCandidates place1 iq templates (\<Union> (set recentCellSets)) cands s = (r, s')"
    by (metis surj_pair)
  have g: "occupiedCells s \<subseteq> occupiedCells s'"
    using tryCandidates_grows [of s place1 iq templates "\<Union> (set recentCellSets)" cands] c by simp
  show ?case
  proof (cases r)
    case None
    with t c g show ?thesis by (simp add: Let_def)
  next
    case (Some a)
    obtain key mirror newCells where a: "a = ((key, mirror), newCells)"
      by (metis surj_pair)
    let ?pushed = "recentCellSets @ [newCells]"
    have "occupiedCells s' \<subseteq> occupiedCells (snd (system1_loop place1 iq templates rnd n (i + 1) k'
              (updateTracking key mirror tr) (if length ?pushed > 3 then tl ?pushed else ?pushed) s'))"
      by (rule Suc.IH)
    with t c g Some a show ?thesis by (auto simp: Let_def)
  qed
qed

lemma examplePiece_socket:
  "findSocketOut (examplePiece y z) = Some (Obj ''socket_out'' (0, y, z + 5) () [])"
  by (simp add: examplePiece_def findSocketOut_single isSocketOutName_names)

lemma examplePiece_distance:
  "distanceTo (0, y, 0) (0, y, 5) = 5"
  "distanceTo (0, y, 5) (0, y, 10) = 5"
  "distanceTo (0, y, 10) (0, y, 15) = 5"
  "distanceTo (0, y, 15) (0, y, 20) = 5"
  by (simp_all add: distanceTo_def distanceToSquared_def Math_sqrt_def vx_def vy_def vz_def
      fl_eval sqrt_squares)

lemma examplePiece_cells:
  "sampleRoadCells (examplePiece y 0) = [(0, 0), (0, 1), (0, 1), (0, 2), (0, 2), (0, 3)]"
  "sampleRoadCells (examplePiece y 5) = [(0, 3), (0, 3), (0, 4), (0, 4), (0, 5), (0, 5)]"
  "sampleRoadCells (examplePiece y 10) = [(0, 5), (0, 6), (0, 6), (0, 7), (0, 7), (0, 8)]"
  "sampleRoadCells (examplePiece y 15) = [(0, 8), (0, 8), (0, 9), (0, 9), (0, 10), (0, 10)]"
  unfolding sampleRoadCells_Some [OF examplePiece_socket]
     apply (simp_all add: examplePiece_def examplePiece_distance Math_ceil_def vx_def vz_def)
     apply (simp_all add: upto_rec1)
     apply (simp_all add: cellKey_def lerp1_def Math_round_def GRID_CELL_SIZE_def fl_eval)
  done

lemma examplePlace2_piece: "examplePlace2 exampleRoadShort (0, y, z) () = examplePiece y z"
  by (simp add: examplePlace2_def exampleRoadShort_def examplePiece_def vx_def vy_def vz_def)

lemma liftY_piece: "liftY d (examplePiece y z) = examplePiece (fadd y d) z"
  by (simp add: examplePiece_def vx_def vy_def vz_def)

lemma removeGrassUnder_empty: "worldGrid s = Map.empty \<Longrightarrow> removeGrassUnder cs s = s"
  unfolding removeGrassUnder_def by (induction cs) (auto split: option.splits)

lemma shuffle_zero:
  "shuffleArray (\<lambda>n. 0) k [''road_long'', ''road_short'', ''road_curve_wide'', ''road_curve_tight'']
     = ([''road_short'', ''road_curve_wide'', ''road_curve_tight'', ''road_long''], k + 3)"
  by (simp add: shuffleArray_def numeral_3_eq_3 Math_random_def Math_floor_def Let_def)

text \<open>The example state is what the road generator produces with the one template.\<close>

lemma example_generateRoad:
  "generateRoad examplePlace2 () (\<lambda>n. 0) 3 exampleStart = exampleRoadState"
  by (simp add: generateRoad_def numeral_2_eq_2 numeral_3_eq_3 maxFailures_def shuffle_zero Let_def
      trySpawnRoadPiece_def exampleStart_def emptyViewer_def examplePlace2_piece
      examplePiece_cells liftY_piece removeGrassUnder_empty recentCellsOf_def
      getSocketTransform_def examplePiece_socket exampleRoadState_def) auto

lemma example_recent:
  "recentCellsOf exampleRoadState = {(0, 3), (0, 4), (0, 5), (0, 6), (0, 7), (0, 8)}"
  by (simp add: recentCellsOf_def exampleRoadState_def exampleStart_def emptyViewer_def
      examplePiece_cells) auto

text \<open>
  C4. When the template exists and some sampled fine cell of the candidate is occupied and
  outside the seam-tolerance window of the last two committed pieces,
  \<^verbatim>\<open>trySpawnRoadPiece\<close> returns null and the state of the viewer (occupied cells,
  world grid, ground tiles, committed pieces) is exactly the state before the call.
\<close>

theorem rejected_trial_keeps_state:
  assumes "roadTemplates s pieceName = Some template"
    and "c \<in> set (sampleRoadCells (place template p q))"
    and "c \<in> occupiedCells s"
    and "c \<notin> recentCellsOf s"
  shows "trySpawnRoadPiece place pieceName p q s = (None, s)"
proof -
  have "list_ex (\<lambda>c. c \<in> occupiedCells s \<and> c \<notin> recentCellsOf s) (sampleRoadCells (place template p q))"
    using assms(2-4) by (auto simp: list_ex_iff)
  then show ?thesis
    using assms(1) by (simp add: trySpawnRoadPiece_def Let_def)
qed

theorem rejected_trial_keeps_state_witness:
  "roadTemplates exampleRoadState ''road_short'' = Some exampleRoadShort
   \<and> (0, 0) \<in> set (sampleRoadCells (examplePlace2 exampleRoadShort (0, 0, 0) ()))
   \<and> (0, 0) \<in> occupiedCells exampleRoadState
   \<and> (0, 0) \<notin> recentCellsOf exampleRoadState
   \<and> trySpawnRoadPiece examplePlace2 ''road_short'' (0, 0, 0) () exampleRoadState
       = (None, exampleRoadState)"
proof -
  have t: "roadTemplates exampleRoadState ''road_short'' = Some exampleRoadShort"
    by (simp add: exampleRoadState_def exampleStart_def emptyViewer_def)
  have c: "(0, 0) \<in> set (sampleRoadCells (examplePlace2 exampleRoadShort (0, 0, 0) ()))"
    by (simp add: examplePlace2_origin example5_cells)
  have o: "(0, 0) \<in> occupiedCells exampleRoadState"
    by (simp add: exampleRoadState_def exampleStart_def emptyViewer_def)
  have r: "(0, 0) \<notin> recentCellsOf exampleRoadState"
    by (simp add: example_recent)
  from rejected_trial_keeps_state
      [of exampleRoadState "''road_short''" exampleRoadShort "(0, 0)" examplePlace2 "(0, 0, 0)" "()",
       OF t c o r] t c o r
  show ?thesis by blast
qed

lemma example_accept:
  "occupiedCells (snd (trySpawnRoadPiece examplePlace2 ''road_short'' (0, exampleY 3, 15) () exampleRoadState))
     = {(0, 0), (0, 1), (0, 2), (0, 3), (0, 4), (0, 5), (0, 6), (0, 7), (0, 8), (0, 9), (0, 10)}"
proof -
  have w: "worldGrid exampleRoadState = Map.empty"
    by (simp add: exampleRoadState_def exampleStart_def emptyViewer_def)
  have t: "roadTemplates exampleRoadState ''road_short'' = Some exampleRoadShort"
    by (simp add: exampleRoadState_def exampleStart_def emptyViewer_def)
  have o: "occupiedCells exampleRoadState
             = {(0, 0), (0, 1), (0, 2), (0, 3), (0, 4), (0, 5), (0, 6), (0, 7), (0, 8)}"
    by (simp add: exampleRoadState_def exampleStart_def emptyViewer_def)
  have c: "sampleRoadCells (examplePiece (exampleY 3) 15)
             = [(0, 8), (0, 8), (0, 9), (0, 9), (0, 10), (0, 10)]"
    by (rule examplePiece_cells)
  show ?thesis
    by (simp add: trySpawnRoadPiece_def t examplePlace2_piece c example_recent
        removeGrassUnder_empty [OF w] Let_def o) auto
qed

text \<open>
  C5. After the clear at the start of a run, every operation of the run keeps every key of
  the occupied-cell set: a placement attempt, the trial of a list of piece types, the
  whole spawn loop of \<^verbatim>\<open>generateRoad\<close>, \<^verbatim>\<open>occupyCells\<close>, and the trials and the
  spawn loop of the random-walk generator.
\<close>

theorem occupied_cells_only_grow:
  "occupiedCells s \<subseteq> occupiedCells (snd (trySpawnRoadPiece place pieceName p q s))
   \<and> occupiedCells s \<subseteq> occupiedCells (snd (tryPieces place names p q s))
   \<and> occupiedCells s \<subseteq> occupiedCells (generateRoad_loop place rnd n k cf p q s)
   \<and> occupiedCells s \<subseteq> occupiedCells (occupyCells samples s)
   \<and> occupiedCells s \<subseteq> occupiedCells (snd (tryCandidates place1 iq templates recent cands s))
   \<and> occupiedCells s
       \<subseteq> occupiedCells (snd (system1_loop place1 iq templates rnd n i k tr recentCellSets s))"
  by (simp only: trySpawnRoadPiece_grows tryPieces_grows generateRoad_loop_grows occupyCells_grows
      tryCandidates_grows system1_loop_grows simp_thms)

text \<open>
  A fourth piece placed at the out socket of the third adds its cells and removes none.
\<close>

theorem occupied_cells_only_grow_witness:
  "occupiedCells exampleRoadState
     \<subseteq> occupiedCells
         (snd (trySpawnRoadPiece examplePlace2 ''road_short'' (0, exampleY 3, 15) () exampleRoadState))
   \<and> occupiedCells
       (snd (trySpawnRoadPiece examplePlace2 ''road_short'' (0, exampleY 3, 15) () exampleRoadState))
     = {(0, 0), (0, 1), (0, 2), (0, 3), (0, 4), (0, 5), (0, 6), (0, 7), (0, 8), (0, 9), (0, 10)}"
  using occupied_cells_only_grow
    [of exampleRoadState examplePlace2 "''road_short''" "(0, exampleY 3, 15)" "()"]
    example_accept by blast

section \<open>Results: direction rules of the random-walk generator\<close>











section \<open>Results: the spine-and-branch generator\<close>

lemma spawnPiece_pieces:
  "set (roadPieces s) \<subseteq> set (roadPieces (snd (spawnPiece place templates ty p q s)))"
  by (auto simp: spawnPiece_def Let_def split: option.splits)

lemma spineLoop_keeps:
  "set (roadPieces s) \<subseteq> set (roadPieces (fst (spineLoop place templates n i seed p q br s)))"
proof (induction place templates n i seed p q br s rule: spineLoop.induct)
  case (1 place templates spineLength i seedState currentPos currentQuat branches s)
  show ?case
  proof (cases "i < spineLength")
    case False
    then show ?thesis by (subst spineLoop.simps) simp
  next
    case True
    obtain useRoadX seedState' where d:
      "(if 0 < i \<and> int i < int spineLength - 1
        then (case seededRandom seedState of (r, st) \<Rightarrow> (r < ROADX_CHANCE, st))
        else (False, seedState)) = (useRoadX, seedState')"
      by (metis surj_pair)
    let ?ty = "if useRoadX then ''RoadX'' else ''Road1''"
    obtain r s' where sp: "spawnPiece place templates ?ty currentPos currentQuat s = (r, s')"
      by (metis surj_pair)
    have sub: "set (roadPieces s) \<subseteq> set (roadPieces s')"
      using spawnPiece_pieces [of s place templates ?ty currentPos currentQuat] sp by simp
    show ?thesis
    proof (cases r)
      case None
      then show ?thesis using True d sp sub
        by (subst spineLoop.simps) (simp add: Let_def)
    next
      case (Some piece)
      show ?thesis
      proof (cases "getSocketTransform3 piece ''socket_out''")
        case None
        then show ?thesis using True d sp sub Some
          by (subst spineLoop.simps) (simp add: Let_def)
      next
        case (Some a)
        obtain nextPos nextQuat where a: "a = (nextPos, nextQuat)" by (cases a)
        have "set (roadPieces s') \<subseteq> set (roadPieces (fst (spineLoop place templates spineLength (i + 1) seedState' nextPos nextQuat
                  (if useRoadX then queueBranches piece branches else branches) s')))"
          using "1.IH" [OF True d [symmetric] refl refl sp [symmetric] \<open>r = Some piece\<close> refl Some [unfolded a] refl] 
          by simp
        then show ?thesis using True d sp sub Some a \<open>r = Some piece\<close>
          by (subst spineLoop.simps) (simp add: Let_def)
      qed
    qed
  qed
qed

lemma branchLoop_keeps:
  "set (roadPieces s) \<subseteq> set (roadPieces (branchLoop place templates n p q s))"
proof (induction n arbitrary: p q s)
  case 0
  show ?case by simp
next
  case (Suc n)
  obtain r s' where sp: "spawnPiece place templates ''Road1'' p q s = (r, s')"
    by (metis surj_pair)
  have sub: "set (roadPieces s) \<subseteq> set (roadPieces s')"
    using spawnPiece_pieces [of s place templates "''Road1''" p q] sp by simp
  show ?case
  proof (cases r)
    case None
    then show ?thesis using sp sub by simp
  next
    case (Some piece)
    show ?thesis
    proof (cases "getSocketTransform3 piece ''socket_out''")
      case None
      then show ?thesis using sp sub Some by simp
    next
      case (Some a)
      obtain np nq where a: "a = (np, nq)" by (cases a)
      have "set (roadPieces s') \<subseteq> set (roadPieces (branchLoop place templates n np nq s'))"
        by (rule Suc.IH)
      then show ?thesis using sp sub Some a \<open>r = Some piece\<close> by auto
    qed
  qed
qed

lemma branches_keep:
  "set (roadPieces s)
     \<subseteq> set (roadPieces (fold (\<lambda>b st. branchLoop place templates (lengthB b) (pos b) (quat b) st) bs s))"
proof (induction bs arbitrary: s)
  case Nil
  show ?case by simp
next
  case (Cons b bs)
  have "set (roadPieces s) \<subseteq> set (roadPieces (branchLoop place templates (lengthB b) (pos b) (quat b) s))"
    by (rule branchLoop_keeps)
  also have "\<dots> \<subseteq> set (roadPieces (fold (\<lambda>b st. branchLoop place templates (lengthB b) (pos b) (quat b) st) bs
                 (branchLoop place templates (lengthB b) (pos b) (quat b) s)))"
    by (rule Cons.IH)
  finally show ?case by simp
qed

lemma spine_first_piece:
  assumes "templates ''Road1'' = Some template" and "0 < n"
  shows "place template (0, 0, 0) iq \<in> set (roadPieces (fst (system3 seed n place iq templates s)))"
proof -
  let ?piece = "place template (0, 0, 0) iq"
  let ?s0 = "s\<lparr>roadPieces := []\<rparr>"
  let ?s1 = "s\<lparr>roadPieces := [?piece]\<rparr>"
  let ?spine = "spineLoop place templates n 0 seed (0, 0, 0) iq [] ?s0"
  have sp: "spawnPiece place templates ''Road1'' (0, 0, 0) iq ?s0 = (Some ?piece, ?s1)"
    using assms by (simp add: spawnPiece_def Let_def)
  have "?piece \<in> set (roadPieces (fst ?spine))"
  proof (cases "getSocketTransform3 ?piece ''socket_out''")
    case None
    then show ?thesis using assms sp
      by (subst spineLoop.simps) (simp add: Let_def)
  next
    case (Some a)
    obtain np nq where a: "a = (np, nq)" by (cases a)
    have "?piece \<in> set (roadPieces ?s1)" by simp
    then have "?piece \<in> set (roadPieces (fst (spineLoop place templates n (0 + 1) seed np nq [] ?s1)))"
      by (rule subsetD [OF spineLoop_keeps])
    then show ?thesis using assms sp Some a
      by (subst spineLoop.simps) (simp add: Let_def)
  qed
  moreover have "set (roadPieces (fst ?spine))
      \<subseteq> set (roadPieces (fold (\<lambda>b st. branchLoop place templates (lengthB b) (pos b) (quat b) st)
                              (snd ?spine) (fst ?spine)))"
    by (rule branches_keep)
  moreover have "fst (system3 seed n place iq templates s)
      = fold (\<lambda>b st. branchLoop place templates (lengthB b) (pos b) (quat b) st)
          (snd ?spine) (fst ?spine)"
    by (simp add: system3_def case_prod_beta)
  ultimately show ?thesis
    by (simp only: subsetD)
qed

lemma example_first_piece:
  "translateBy (0, 0, 0) exampleRoad1
     \<in> set (roadPieces (fst (spawnSpineAndBranchSystem3 examplePlace () exampleTemplates emptyViewer)))"
  using spine_first_piece [of exampleTemplates exampleRoad1 SPINE_LENGTH examplePlace "()" SEED emptyViewer]
  by (simp add: spawnSpineAndBranchSystem3_def exampleTemplates_def SPINE_LENGTH_def examplePlace_def)

lemma example_first_cell: "pieceCell (translateBy (0, 0, 0) exampleRoad1) = (0, 0)"
  by (simp add: pieceCell_def exampleRoad1_def getGridKey_def Math_round_def vx_def vz_def
      fdiv_def fl_zero)

lemma origin_in_grid: "2 \<le> N \<Longrightarrow> (0, 0) \<in> set (List.product (gridRange N) (gridRange N))"
  by (simp add: gridRange_def)

lemma grass_everywhere:
  assumes "c \<in> set (List.product (gridRange N) (gridRange N))"
  shows "groundTileAt (generateGroundGrid N s) c"
proof -
  from filled_grid [of N s] have "\<forall>c \<in> set (List.product (gridRange N) (gridRange N)).
         \<exists>t. worldGrid (generateGroundGrid N s) c = Some \<lparr>entry_type = grass, mesh = t\<rparr>
               \<and> position t = tilePos c \<and> t \<in> set (groundTiles (generateGroundGrid N s))"
    by blast
  with assms obtain t where "worldGrid (generateGroundGrid N s) c = Some \<lparr>entry_type = grass, mesh = t\<rparr>"
    by blast
  then show ?thesis by (simp add: groundTileAt_def)
qed

lemma spawnPiece_rel:
  assumes "roadPieces s = roadPieces t"
  shows "fst (spawnPiece place templates ty p q s) = fst (spawnPiece place templates ty p q t)
       \<and> roadPieces (snd (spawnPiece place templates ty p q s))
           = roadPieces (snd (spawnPiece place templates ty p q t))"
  using assms by (simp add: spawnPiece_def Let_def split: option.splits)

lemma spineLoop_rel:
  assumes "roadPieces s = roadPieces t"
  shows "roadPieces (fst (spineLoop place templates n i seed p q br s))
           = roadPieces (fst (spineLoop place templates n i seed p q br t))
       \<and> snd (spineLoop place templates n i seed p q br s)
           = snd (spineLoop place templates n i seed p q br t)"
  using assms
proof (induction place templates n i seed p q br s arbitrary: t rule: spineLoop.induct)
  case (1 place templates spineLength i seedState currentPos currentQuat branches s)
  show ?case
  proof (cases "i < spineLength")
    case False
    then show ?thesis using "1.prems" by (simp add: spineLoop.simps)
  next
    case True
    obtain useRoadX seedState' where d:
      "(if 0 < i \<and> int i < int spineLength - 1
        then (case seededRandom seedState of (r, st) \<Rightarrow> (r < ROADX_CHANCE, st))
        else (False, seedState)) = (useRoadX, seedState')"
      by (metis surj_pair)
    let ?ty = "if useRoadX then ''RoadX'' else ''Road1''"
    obtain r s' where sp: "spawnPiece place templates ?ty currentPos currentQuat s = (r, s')"
      by (metis surj_pair)
    obtain r2 t' where tp: "spawnPiece place templates ?ty currentPos currentQuat t = (r2, t')"
      by (metis surj_pair)
    from spawnPiece_rel [OF "1.prems", of place templates ?ty currentPos currentQuat] sp tp
    have rr: "r2 = r" and st: "roadPieces s' = roadPieces t'" by simp_all
    show ?thesis
    proof (cases r)
      case None
      then show ?thesis using True d sp tp rr st
        by (simp add: spineLoop.simps [of _ _ _ i] Let_def)
    next
      case (Some piece)
      show ?thesis
      proof (cases "getSocketTransform3 piece ''socket_out''")
        case None
        then show ?thesis using True d sp tp rr st Some
          by (simp add: spineLoop.simps [of _ _ _ i] Let_def)
      next
        case (Some a)
        obtain nextPos nextQuat where a: "a = (nextPos, nextQuat)" by (cases a)
        note IH = "1.IH" [OF True d [symmetric] refl refl sp [symmetric] \<open>r = Some piece\<close> refl
            Some [unfolded a] refl st]
        show ?thesis using True d sp tp rr Some a \<open>r = Some piece\<close> IH
          by (simp add: spineLoop.simps [of _ _ _ i] Let_def)
      qed
    qed
  qed
qed

lemma branchLoop_rel:
  assumes "roadPieces s = roadPieces t"
  shows "roadPieces (branchLoop place templates n p q s) = roadPieces (branchLoop place templates n p q t)"
  using assms
proof (induction n arbitrary: p q s t)
  case 0
  then show ?case by simp
next
  case (Suc n)
  obtain r s' where sp: "spawnPiece place templates ''Road1'' p q s = (r, s')"
    by (metis surj_pair)
  obtain r2 t' where tp: "spawnPiece place templates ''Road1'' p q t = (r2, t')"
    by (metis surj_pair)
  from spawnPiece_rel [OF Suc.prems, of place templates "''Road1''" p q] sp tp
  have rr: "r2 = r" and st: "roadPieces s' = roadPieces t'" by simp_all
  show ?case
  proof (cases r)
    case None
    then show ?thesis using sp tp rr st by simp
  next
    case (Some piece)
    show ?thesis
    proof (cases "getSocketTransform3 piece ''socket_out''")
      case None
      then show ?thesis using sp tp rr st Some by simp
    next
      case (Some a)
      obtain np nq where a: "a = (np, nq)" by (cases a)
      from Suc.IH [OF st]
      show ?thesis using sp tp rr Some a \<open>r = Some piece\<close> by simp
    qed
  qed
qed

lemma branches_rel:
  assumes "roadPieces s = roadPieces t"
  shows "roadPieces (fold (\<lambda>b st. branchLoop place templates (lengthB b) (pos b) (quat b) st) bs s)
       = roadPieces (fold (\<lambda>b st. branchLoop place templates (lengthB b) (pos b) (quat b) st) bs t)"
  using assms
proof (induction bs arbitrary: s t)
  case Nil
  then show ?case by simp
next
  case (Cons b bs)
  from Cons.IH [OF branchLoop_rel [OF Cons.prems]] show ?case by simp
qed

lemma system3_rel:
  "roadPieces (fst (system3 seed n place iq templates s))
     = roadPieces (fst (system3 seed n place iq templates t))
   \<and> snd (system3 seed n place iq templates s) = snd (system3 seed n place iq templates t)"
proof -
  let ?a = "spineLoop place templates n 0 seed (0, 0, 0) iq [] (s\<lparr>roadPieces := []\<rparr>)"
  let ?b = "spineLoop place templates n 0 seed (0, 0, 0) iq [] (t\<lparr>roadPieces := []\<rparr>)"
  have "roadPieces (s\<lparr>roadPieces := []\<rparr>) = roadPieces (t\<lparr>roadPieces := []\<rparr>)" by simp
  from spineLoop_rel [OF this]
  have r: "roadPieces (fst ?a) = roadPieces (fst ?b)" and b: "snd ?a = snd ?b" by blast+
  from branches_rel [OF r] b show ?thesis
    by (simp add: system3_def case_prod_beta)
qed

lemma branchLoop_pos:
  "0 < n \<Longrightarrow> branchLoop place templates n p q s =
     (case spawnPiece place templates ''Road1'' p q s of
        (None, s') \<Rightarrow> s'
      | (Some piece, s') \<Rightarrow>
          (case getSocketTransform3 piece ''socket_out'' of
             Some (nextPos, nextQuat) \<Rightarrow> branchLoop place templates (n - 1) nextPos nextQuat s'
           | None \<Rightarrow> s'))"
  by (cases n) (auto split: prod.splits option.splits)

lemma example_run:
  "length (roadPieces (fst (spawnSpineAndBranchSystem3 examplePlace () exampleTemplates emptyViewer))) = 30
   \<and> map side (snd (spawnSpineAndBranchSystem3 examplePlace () exampleTemplates emptyViewer))
      = [''left'', ''right'']"
  by (simp add: spawnSpineAndBranchSystem3_def system3_def SEED_def SPINE_LENGTH_def
      spineLoop.simps Let_def spawnPiece_def exampleTemplates_def examplePlace_def
      exampleRoad1_def exampleRoadX_def getSocketTransform3_def findSocket_def assignMatches_def
      lowers seededRandom_def ROADX_CHANCE_def queueBranches_def emptyViewer_def vx_def vy_def vz_def
      branchLoop_pos)

text \<open>
  C1. Two executions of the spine-and-branch generator, from any two states of the viewer,
  with the same loaded templates, leave the same ordered list of placed pieces (names,
  world positions and orientations of every node) and queue the same branches; hence the
  same piece count and the same branch count. This holds for every seed and spine length,
  and so for seed 12345 and length 20.
\<close>

theorem spine_and_branch_deterministic:
  "roadPieces (fst (system3 seed n place iq templates s))
     = roadPieces (fst (system3 seed n place iq templates t))
   \<and> snd (system3 seed n place iq templates s) = snd (system3 seed n place iq templates t)
   \<and> roadPieces (fst (spawnSpineAndBranchSystem3 place iq templates s))
     = roadPieces (fst (spawnSpineAndBranchSystem3 place iq templates t))
   \<and> snd (spawnSpineAndBranchSystem3 place iq templates s)
     = snd (spawnSpineAndBranchSystem3 place iq templates t)
   \<and> length (roadPieces (fst (spawnSpineAndBranchSystem3 place iq templates s)))
     = length (roadPieces (fst (spawnSpineAndBranchSystem3 place iq templates t)))
   \<and> length (snd (spawnSpineAndBranchSystem3 place iq templates s))
     = length (snd (spawnSpineAndBranchSystem3 place iq templates t))"
  using system3_rel [of seed n place iq templates s t]
    system3_rel [of SEED SPINE_LENGTH place iq templates s t]
  by (simp add: spawnSpineAndBranchSystem3_def)

text \<open>With the example templates both runs place 30 pieces and queue 2 branches.\<close>

theorem spine_and_branch_deterministic_witness:
  "roadPieces (fst (spawnSpineAndBranchSystem3 examplePlace () exampleTemplates emptyViewer))
     = roadPieces (fst (spawnSpineAndBranchSystem3 examplePlace () exampleTemplates
                          (emptyViewer\<lparr>roadPieces := [exampleRoad1, exampleRoadX]\<rparr>)))
   \<and> length (roadPieces (fst (spawnSpineAndBranchSystem3 examplePlace () exampleTemplates
                          (emptyViewer\<lparr>roadPieces := [exampleRoad1, exampleRoadX]\<rparr>)))) = 30
   \<and> length (snd (spawnSpineAndBranchSystem3 examplePlace () exampleTemplates
                          (emptyViewer\<lparr>roadPieces := [exampleRoad1, exampleRoadX]\<rparr>))) = 2"
proof -
  let ?t = "emptyViewer\<lparr>roadPieces := [exampleRoad1, exampleRoadX]\<rparr>"
  note d = spine_and_branch_deterministic
    [of SEED SPINE_LENGTH examplePlace "()" exampleTemplates emptyViewer ?t]
  have "length (map side (snd (spawnSpineAndBranchSystem3 examplePlace () exampleTemplates emptyViewer)))
          = 2"
    using example_run by simp
  then have "length (snd (spawnSpineAndBranchSystem3 examplePlace () exampleTemplates emptyViewer)) = 2"
    by simp
  with d example_run show ?thesis by simp
qed

section \<open>Results: ground filling after road generation\<close>

text \<open>
  C3, as the specification states it, fails: after the spine-and-branch generator and a
  20 by 20 ground fill, the first spine piece lies at the origin and the world grid holds
  a ground tile at its coarse cell \<open>(0, 0)\<close>.
\<close>

theorem fill_over_roads_counterexample:
  "\<not> spec_tileRoadExclusive
       (generateGroundGrid 20
          (fst (spawnSpineAndBranchSystem3 examplePlace () exampleTemplates emptyViewer)))"
proof -
  let ?s1 = "fst (spawnSpineAndBranchSystem3 examplePlace () exampleTemplates emptyViewer)"
  let ?p = "translateBy (0, 0, 0) exampleRoad1"
  have "?p \<in> set (roadPieces (generateGroundGrid 20 ?s1))"
    using filled_grid [of 20 ?s1] example_first_piece by simp
  moreover have "groundTileAt (generateGroundGrid 20 ?s1) (pieceCell ?p)"
    unfolding example_first_cell by (rule grass_everywhere, rule origin_in_grid) simp
  ultimately show ?thesis
    by (auto simp: spec_tileRoadExclusive_def list_all_iff)
qed

text \<open>
  C3, amended. The ground filler does not look at the roads: after
  \<^verbatim>\<open>generateGroundGrid(N)\<close> following the spine-and-branch generator, the committed
  pieces are unchanged and every piece whose coarse cell lies in the filled square has a
  ground tile at that cell.
\<close>

theorem fill_after_generate_tiles_under_roads:
  assumes "s1 = fst (spawnSpineAndBranchSystem3 place iq templates s)"
    and "s2 = generateGroundGrid N s1"
    and "piece \<in> set (roadPieces s1)"
    and "pieceCell piece \<in> set (List.product (gridRange N) (gridRange N))"
  shows "roadPieces s2 = roadPieces s1 \<and> piece \<in> set (roadPieces s2) \<and> groundTileAt s2 (pieceCell piece)
       \<and> (\<exists>t. worldGrid s2 (pieceCell piece) = Some \<lparr>entry_type = grass, mesh = t\<rparr>
               \<and> t \<in> set (groundTiles s2) \<and> position t = tilePos (pieceCell piece))"
proof -
  from filled_grid [of N s1]
  have r: "roadPieces s2 = roadPieces s1"
    and t: "\<forall>c \<in> set (List.product (gridRange N) (gridRange N)).
         \<exists>t. worldGrid s2 c = Some \<lparr>entry_type = grass, mesh = t\<rparr>
               \<and> position t = tilePos c \<and> t \<in> set (groundTiles s2)"
    unfolding assms(2) by blast+
  from t assms(4) obtain t where
    "worldGrid s2 (pieceCell piece) = Some \<lparr>entry_type = grass, mesh = t\<rparr>"
    "position t = tilePos (pieceCell piece)" "t \<in> set (groundTiles s2)"
    by blast
  moreover have "groundTileAt s2 (pieceCell piece)"
    unfolding assms(2) using assms(4) by (rule grass_everywhere)
  ultimately show ?thesis using r assms(3) by auto
qed

theorem fill_after_generate_tiles_under_roads_witness:
  "translateBy (0, 0, 0) exampleRoad1
     \<in> set (roadPieces (fst (spawnSpineAndBranchSystem3 examplePlace () exampleTemplates emptyViewer)))
   \<and> pieceCell (translateBy (0, 0, 0) exampleRoad1) \<in> set (List.product (gridRange 20) (gridRange 20))
   \<and> groundTileAt
        (generateGroundGrid 20
           (fst (spawnSpineAndBranchSystem3 examplePlace () exampleTemplates emptyViewer)))
        (pieceCell (translateBy (0, 0, 0) exampleRoad1))"
proof -
  have c: "pieceCell (translateBy (0, 0, 0) exampleRoad1) \<in> set (List.product (gridRange 20) (gridRange 20))"
    unfolding example_first_cell by (rule origin_in_grid) simp
  from fill_after_generate_tiles_under_roads [OF refl refl example_first_piece c]
  show ?thesis using example_first_piece c by blast
qed

section \<open>Results: utility poles and cables\<close>
















end
